theory Spec2Isabelle
  imports Complex_Main "HOL-Library.Sublist"
begin

section \<open>Python strings\<close>

text \<open>
  A Python \<open>str\<close> is a sequence of Unicode code points; it is modelled as a list of
  code points, so that \<open>len\<close>, \<open>in\<close>, \<open>split\<close> and \<open>lower\<close> count what Python counts.
  ASCII literals are written \<open>str ''...''\<close>; the Cyrillic entries of the marker
  catalogue are written as code point lists.
\<close>

type_synonym pystr = "nat list"

definition str :: "string \<Rightarrow> pystr" where
  "str s = map of_char s"

text \<open>\<open>needle in haystack\<close> on strings: the needle occurs as a contiguous substring.\<close>

fun py_in :: "pystr \<Rightarrow> pystr \<Rightarrow> bool" where
  "py_in needle [] = (needle = [])"
| "py_in needle (c # cs) = (prefix needle (c # cs) \<or> py_in needle cs)"

text \<open>
  \<open>str.isspace\<close> for one code point: the Unicode white space that \<open>str.split()\<close> and
  \<open>str.strip()\<close> use.
\<close>

definition isspace :: "nat \<Rightarrow> bool" where
  "isspace c \<longleftrightarrow> (9 \<le> c \<and> c \<le> 13) \<or> (28 \<le> c \<and> c \<le> 32) \<or> c = 133 \<or> c = 160
     \<or> c = 5760 \<or> (8192 \<le> c \<and> c \<le> 8202) \<or> c = 8232 \<or> c = 8233 \<or> c = 8239
     \<or> c = 8287 \<or> c = 12288"

text \<open>
  \<open>str.isdigit\<close> and the regular expression class \<open>\d\<close>, on the ASCII digits. (Python also
  accepts the decimal digits of other scripts; the catalogue and the examples use ASCII.)
\<close>

definition isdigit :: "nat \<Rightarrow> bool" where
  "isdigit c \<longleftrightarrow> 48 \<le> c \<and> c \<le> 57"

text \<open>
  \<open>str.lower\<close>, one code point at a time, on the Latin and Cyrillic capitals (the two
  scripts of the supported languages); other code points are kept.
\<close>

definition lower_cp :: "nat \<Rightarrow> nat" where
  "lower_cp c = (if (65 \<le> c \<and> c \<le> 90) \<or> (1040 \<le> c \<and> c \<le> 1071) then c + 32
                 else if 1024 \<le> c \<and> c \<le> 1039 then c + 80 else c)"

definition lower :: "pystr \<Rightarrow> pystr" where
  "lower s = map lower_cp s"

definition upper_cp :: "nat \<Rightarrow> nat" where
  "upper_cp c = (if (97 \<le> c \<and> c \<le> 122) \<or> (1072 \<le> c \<and> c \<le> 1103) then c - 32
                 else if 1104 \<le> c \<and> c \<le> 1119 then c - 80 else c)"

definition upper :: "pystr \<Rightarrow> pystr" where
  "upper s = map upper_cp s"

text \<open>\<open>s.strip()\<close>: white space removed at both ends.\<close>

definition strip :: "pystr \<Rightarrow> pystr" where
  "strip s = rev (dropWhile isspace (rev (dropWhile isspace s)))"

text \<open>
  The pieces between separator code points (one piece more than there are separators);
  \<open>s.split()\<close> is the list of the non-empty pieces between white space.
\<close>

fun pieces :: "(nat \<Rightarrow> bool) \<Rightarrow> pystr \<Rightarrow> pystr list" where
  "pieces sep [] = [Nil]"
| "pieces sep (c # cs) =
     (if sep c then [] # pieces sep cs
      else (case pieces sep cs of [] \<Rightarrow> [[c]] | w # ws \<Rightarrow> (c # w) # ws))"

definition py_split :: "pystr \<Rightarrow> pystr list" where
  "py_split s = filter (\<lambda>w. w \<noteq> []) (pieces isspace s)"

text \<open>
  \<open>re.split(r'[.!?]+', s)\<close>: the pieces between maximal runs of sentence punctuation.
  The flag tells that the previous code point was punctuation, so that a run counts once.
\<close>

definition sentence_mark :: "nat \<Rightarrow> bool" where
  "sentence_mark c \<longleftrightarrow> c = 46 \<or> c = 33 \<or> c = 63"

fun re_split_runs :: "bool \<Rightarrow> pystr \<Rightarrow> pystr list" where
  "re_split_runs prev [] = [Nil]"
| "re_split_runs prev (c # cs) =
     (if sentence_mark c then
        (if prev then re_split_runs True cs else [] # re_split_runs True cs)
      else (case re_split_runs False cs of [] \<Rightarrow> [[c]] | w # ws \<Rightarrow> (c # w) # ws))"

definition re_split_sentences :: "pystr \<Rightarrow> pystr list" where
  "re_split_sentences s = re_split_runs False s"

text \<open>\<open>s.endswith(suffix)\<close>.\<close>

definition endswith :: "pystr \<Rightarrow> pystr \<Rightarrow> bool" where
  "endswith s sfx = suffix sfx s"

text \<open>\<open>xs[-n:]\<close> for \<open>n > 0\<close>: the last \<open>n\<close> elements, all of them when there are fewer.\<close>

definition last_n :: "nat \<Rightarrow> 'a list \<Rightarrow> 'a list" where
  "last_n n xs = drop (length xs - n) xs"

text \<open>\<open>sum(1 for x in xs if P x)\<close>.\<close>

definition count_if :: "('a \<Rightarrow> bool) \<Rightarrow> 'a list \<Rightarrow> nat" where
  "count_if P xs = length (filter P xs)"

section \<open>Data model\<close>

datatype language = EN | RU

datatype ThinkingStrategy =
    LINEAR | TREE | DIALECTICAL | SYSTEMATIC | CREATIVE | ANALYTICAL | METACOGNITIVE
  | CRITICAL | SYSTEMIC | LATERAL | STRATEGIC | EMPATHETIC | ABSTRACT | PRACTICAL
  | INTEGRATIVE | EVOLUTIONARY | CONVERGENT | DIVERGENT | REFLECTIVE

datatype ThoughtType =
    OBSERVATION | HYPOTHESIS | ANALYSIS | SYNTHESIS | EVALUATION | CONCLUSION
  | QUESTION | ASSUMPTION | COUNTERARGUMENT | METACOGNITION

datatype ConfidenceLevel = VERY_LOW | LOW | MEDIUM | HIGH | VERY_HIGH

text \<open>Python floats are modelled as exact reals.\<close>

record ThoughtMetrics =
  clarity_score :: real
  logical_coherence :: real
  evidence_strength :: real
  novelty_score :: real
  complexity_score :: real
  confidence_level :: ConfidenceLevel
  critical_thinking_score :: real
  systemic_thinking_score :: real
  lateral_thinking_score :: real
  strategic_score :: real
  empathy_score :: real
  abstraction_score :: real
  practicality_score :: real
  integration_score :: real
  evolution_score :: real
  convergence_score :: real
  divergence_score :: real
  reflection_score :: real

text \<open>The dataclass defaults: \<open>ThoughtMetrics()\<close>.\<close>

definition default_metrics :: ThoughtMetrics where
  "default_metrics =
     \<lparr>clarity_score = 0, logical_coherence = 0, evidence_strength = 0, novelty_score = 0,
      complexity_score = 0, confidence_level = MEDIUM, critical_thinking_score = 0,
      systemic_thinking_score = 0, lateral_thinking_score = 0, strategic_score = 0,
      empathy_score = 0, abstraction_score = 0, practicality_score = 0,
      integration_score = 0, evolution_score = 0, convergence_score = 0,
      divergence_score = 0, reflection_score = 0\<rparr>"

text \<open>A reading of the clock (\<open>datetime.now()\<close>); the fields are in their calendar ranges.\<close>

record datetime =
  year :: nat
  month :: nat
  day :: nat
  hour :: nat
  minute :: nat
  second :: nat
  microsecond :: nat

record EnhancedThought =
  thought_id :: pystr
  content :: pystr
  thought_type :: ThoughtType
  strategy :: ThinkingStrategy
  parent_id :: "pystr option"
  children_ids :: "pystr list"
  branch_id :: "pystr option"
  revision_of :: "pystr option"
  timestamp :: datetime
  metrics :: ThoughtMetrics
  cognitive_biases :: "pystr list"
  tags :: "pystr list"
  supports :: "pystr list"
  contradicts :: "pystr list"
  builds_on :: "pystr list"

record EnhancedThinkingInput =
  thought :: pystr
  thought_type_in :: ThoughtType
  strategy_in :: ThinkingStrategy
  parent_thought_id :: "pystr option"
  revision_of_id :: "pystr option"
  branch_id_in :: "pystr option"
  supports_thoughts :: "pystr list"
  contradicts_thoughts :: "pystr list"
  builds_on_thoughts :: "pystr list"
  tags_in :: "pystr list"
  confidence :: "ConfidenceLevel option"
  response_language :: "pystr option"
  request_analysis :: bool
  request_validation :: bool

section \<open>Marker catalogue (localization_markers.py)\<close>

record bias_data =
  bias_markers :: "pystr list"
  bias_context :: "pystr list"

text \<open>
  The evidence patterns are regular expressions: \<open>\d+%\<close>, \<open>\d+\.\d+\<close> and plain words.
\<close>

datatype evidence_pattern = DigitsPercent | DigitsDotDigits | Literal pystr

text \<open>
  A strategy's marker dictionary maps a category name to a list of words, or (under
  \<open>structure_keywords\<close>) to a list of word pairs; the order is the dictionary's.
\<close>

datatype marker_value = Words "pystr list" | Pairs "(pystr \<times> pystr) list"

type_synonym markers_data = "(pystr \<times> marker_value) list"

record emotional_words =
  positive :: "pystr list"
  negative :: "pystr list"

definition COGNITIVE_BIAS_MARKERS :: "language \<Rightarrow> (pystr \<times> bias_data) list" where
  "COGNITIVE_BIAS_MARKERS lang = (case lang of
     EN \<Rightarrow>
      [(str ''confirmation bias'',
        \<lparr>bias_markers = [str ''always'', str ''never'', str ''absolutely'', str ''definitely'',
                         str ''undoubtedly'', str ''unquestionably'', str ''obviously''],
         bias_context = [str ''assertion'', str ''without evidence'']\<rparr>),
       (str ''black-and-white thinking'',
        \<lparr>bias_markers = [str ''either'', str ''or'', str ''only'', str ''exclusively'', str ''all'',
                         str ''nothing'', str ''completely''],
         bias_context = [str ''extremes'', str ''lack of nuance'']\<rparr>),
       (str ''emotional reasoning'',
        \<lparr>bias_markers = [str ''feel'', str ''seems'', str ''sense'', str ''think'', str ''believe'',
                         str ''hope'', str ''fear''],
         bias_context = [str ''emotions'', str ''without facts'']\<rparr>),
       (str ''hasty generalization'',
        \<lparr>bias_markers = [str ''all'', str ''every'', str ''no one'', str ''always'', str ''never'',
                         str ''everywhere'', str ''nowhere''],
         bias_context = [str ''generalization'', str ''few examples'']\<rparr>)]
   | RU \<Rightarrow>
      [([1087, 1086, 1076, 1090, 1074, 1077, 1088, 1078, 1076, 1072, 1102, 1097, 1077, 1077, 32, 1080, 1089, 1082, 1072, 1078, 1077, 1085, 1080, 1077],
        \<lparr>bias_markers = [[1074, 1089, 1077, 1075, 1076, 1072], [1085, 1080, 1082, 1086, 1075, 1076, 1072],
                         [1072, 1073, 1089, 1086, 1083, 1102, 1090, 1085, 1086], [1090, 1086, 1095, 1085, 1086],
                         [1073, 1077, 1079, 1091, 1089, 1083, 1086, 1074, 1085, 1086],
                         [1085, 1077, 1089, 1086, 1084, 1085, 1077, 1085, 1085, 1086],
                         [1086, 1095, 1077, 1074, 1080, 1076, 1085, 1086]],
         bias_context = [[1091, 1090, 1074, 1077, 1088, 1078, 1076, 1077, 1085, 1080, 1077],
                         [1073, 1077, 1079, 32, 1076, 1086, 1082, 1072, 1079, 1072, 1090, 1077, 1083, 1100, 1089, 1090, 1074]]\<rparr>),
       ([1095, 1077, 1088, 1085, 1086, 45, 1073, 1077, 1083, 1086, 1077, 32, 1084, 1099, 1096, 1083, 1077, 1085, 1080, 1077],
        \<lparr>bias_markers = [[1083, 1080, 1073, 1086], [1080, 1083, 1080], [1090, 1086, 1083, 1100, 1082, 1086],
                         [1080, 1089, 1082, 1083, 1102, 1095, 1080, 1090, 1077, 1083, 1100, 1085, 1086],
                         [1074, 1089, 1077], [1085, 1080, 1095, 1077, 1075, 1086],
                         [1087, 1086, 1083, 1085, 1086, 1089, 1090, 1100, 1102]],
         bias_context = [[1082, 1088, 1072, 1081, 1085, 1086, 1089, 1090, 1080],
                         [1086, 1090, 1089, 1091, 1090, 1089, 1090, 1074, 1080, 1077, 32, 1075, 1088, 1072, 1076, 1072, 1094, 1080, 1081]]\<rparr>),
       ([1101, 1084, 1086, 1094, 1080, 1086, 1085, 1072, 1083, 1100, 1085, 1086, 1077, 32, 1088, 1072, 1089, 1089, 1091, 1078, 1076, 1077, 1085, 1080, 1077],
        \<lparr>bias_markers = [[1095, 1091, 1074, 1089, 1090, 1074, 1091, 1102],
                         [1082, 1072, 1078, 1077, 1090, 1089, 1103], [1086, 1097, 1091, 1097, 1072, 1102],
                         [1076, 1091, 1084, 1072, 1102], [1074, 1077, 1088, 1102],
                         [1085, 1072, 1076, 1077, 1102, 1089, 1100], [1073, 1086, 1102, 1089, 1100]],
         bias_context = [[1101, 1084, 1086, 1094, 1080, 1080],
                         [1073, 1077, 1079, 32, 1092, 1072, 1082, 1090, 1086, 1074]]\<rparr>),
       ([1087, 1086, 1089, 1087, 1077, 1096, 1085, 1099, 1077, 32, 1086, 1073, 1086, 1073, 1097, 1077, 1085, 1080, 1103],
        \<lparr>bias_markers = [[1074, 1089, 1077], [1082, 1072, 1078, 1076, 1099, 1081],
                         [1085, 1080, 1082, 1090, 1086], [1074, 1089, 1077, 1075, 1076, 1072],
                         [1085, 1080, 1082, 1086, 1075, 1076, 1072], [1074, 1077, 1079, 1076, 1077],
                         [1085, 1080, 1075, 1076, 1077]],
         bias_context = [[1086, 1073, 1086, 1073, 1097, 1077, 1085, 1080, 1077],
                         [1084, 1072, 1083, 1086, 32, 1087, 1088, 1080, 1084, 1077, 1088, 1086, 1074]]\<rparr>)])"

definition CONTRADICTION_WORDS :: "language \<Rightarrow> (pystr \<times> pystr) list" where
  "CONTRADICTION_WORDS lang = (case lang of
     EN \<Rightarrow>
      [(str ''not'', str ''yes''), (str ''no'', str ''yes''), (str ''bad'', str ''good''),
       (str ''impossible'', str ''possible''), (str ''incorrect'', str ''correct'')]
   | RU \<Rightarrow>
      [([1085, 1077], [1076, 1072]), ([1085, 1077, 1090], [1076, 1072]),
       ([1087, 1083, 1086, 1093, 1086], [1093, 1086, 1088, 1086, 1096, 1086]),
       ([1085, 1077, 1074, 1086, 1079, 1084, 1086, 1078, 1085, 1086], [1074, 1086, 1079, 1084, 1086, 1078, 1085, 1086]),
       ([1085, 1077, 1074, 1077, 1088, 1085, 1086], [1074, 1077, 1088, 1085, 1086])])"

definition LOGICAL_CONNECTORS :: "language \<Rightarrow> pystr list" where
  "LOGICAL_CONNECTORS lang = (case lang of
     EN \<Rightarrow>
      [str ''therefore'', str ''consequently'', str ''thus'', str ''as a result'',
       str ''however'', str ''but'', str ''nevertheless'', str ''on the other hand'',
       str ''firstly'', str ''secondly'', str ''additionally'', str ''moreover'']
   | RU \<Rightarrow>
      [[1087, 1086, 1101, 1090, 1086, 1084, 1091],
       [1089, 1083, 1077, 1076, 1086, 1074, 1072, 1090, 1077, 1083, 1100, 1085, 1086],
       [1090, 1072, 1082, 1080, 1084, 32, 1086, 1073, 1088, 1072, 1079, 1086, 1084],
       [1074, 32, 1088, 1077, 1079, 1091, 1083, 1100, 1090, 1072, 1090, 1077],
       [1086, 1076, 1085, 1072, 1082, 1086], [1085, 1086],
       [1090, 1077, 1084, 32, 1085, 1077, 32, 1084, 1077, 1085, 1077, 1077],
       [1089, 32, 1076, 1088, 1091, 1075, 1086, 1081, 32, 1089, 1090, 1086, 1088, 1086, 1085, 1099],
       [1074, 1086, 45, 1087, 1077, 1088, 1074, 1099, 1093],
       [1074, 1086, 45, 1074, 1090, 1086, 1088, 1099, 1093],
       [1082, 1088, 1086, 1084, 1077, 32, 1090, 1086, 1075, 1086],
       [1073, 1086, 1083, 1077, 1077, 32, 1090, 1086, 1075, 1086]])"

definition EVIDENCE_PATTERNS :: "language \<Rightarrow> evidence_pattern list" where
  "EVIDENCE_PATTERNS lang = (case lang of
     EN \<Rightarrow>
      [DigitsPercent, DigitsDotDigits, Literal (str ''research''), Literal (str ''data''),
       Literal (str ''statistics''), Literal (str ''fact''), Literal (str ''evidence''),
       Literal (str ''example''), Literal (str ''case'')]
   | RU \<Rightarrow>
      [DigitsPercent, DigitsDotDigits,
       Literal ([1080, 1089, 1089, 1083, 1077, 1076, 1086, 1074, 1072, 1085, 1080, 1077]),
       Literal ([1076, 1072, 1085, 1085, 1099, 1077]),
       Literal ([1089, 1090, 1072, 1090, 1080, 1089, 1090, 1080, 1082, 1072]),
       Literal ([1092, 1072, 1082, 1090]),
       Literal ([1076, 1086, 1082, 1072, 1079, 1072, 1090, 1077, 1083, 1100, 1089, 1090, 1074, 1086]),
       Literal ([1087, 1088, 1080, 1084, 1077, 1088]),
       Literal ([1089, 1083, 1091, 1095, 1072, 1081])])"

definition UNCERTAINTY_MARKERS :: "language \<Rightarrow> pystr list" where
  "UNCERTAINTY_MARKERS lang = (case lang of
     EN \<Rightarrow>
      [str ''possibly'', str ''probably'', str ''seems'', str ''might be'', str ''I assume'']
   | RU \<Rightarrow>
      [[1074, 1086, 1079, 1084, 1086, 1078, 1085, 1086],
       [1074, 1077, 1088, 1086, 1103, 1090, 1085, 1086],
       [1082, 1072, 1078, 1077, 1090, 1089, 1103],
       [1084, 1086, 1078, 1077, 1090, 32, 1073, 1099, 1090, 1100],
       [1087, 1088, 1077, 1076, 1087, 1086, 1083, 1086, 1078, 1091]])"

definition CERTAINTY_MARKERS :: "language \<Rightarrow> pystr list" where
  "CERTAINTY_MARKERS lang = (case lang of
     EN \<Rightarrow>
      [str ''definitely'', str ''surely'', str ''undoubtedly'', str ''obviously'',
       str ''unquestionably'']
   | RU \<Rightarrow>
      [[1086, 1087, 1088, 1077, 1076, 1077, 1083, 1077, 1085, 1085, 1086],
       [1090, 1086, 1095, 1085, 1086],
       [1073, 1077, 1079, 1091, 1089, 1083, 1086, 1074, 1085, 1086],
       [1086, 1095, 1077, 1074, 1080, 1076, 1085, 1086],
       [1085, 1077, 1089, 1086, 1084, 1085, 1077, 1085, 1085, 1086]])"

definition CRITICAL_MARKERS :: "language \<Rightarrow> markers_data" where
  "CRITICAL_MARKERS lang = (case lang of
     EN \<Rightarrow>
      [(str ''argumentation'', Words [str ''because'', str ''therefore'', str ''thus'', str ''this proves'',
                 str ''based on'', str ''stemming from'']),
       (str ''evaluation'', Words [str ''reliability'', str ''validity'', str ''justification'', str ''verification'',
                 str ''confirmation'', str ''substantiation'']),
       (str ''analysis'', Words [str ''consider'', str ''analyze'', str ''investigate'', str ''break down'',
                 str ''examine'', str ''evaluate'']),
       (str ''refutation'', Words [str ''refutes'', str ''contradicts'', str ''inconsistent with'', str ''raises doubts'',
                 str ''requires verification'']),
       (str ''structure_keywords'', Pairs [(str ''if'', str ''then''), (str ''although'', str ''but''),
                 (str ''despite'', str ''yet'')])]
   | RU \<Rightarrow>
      [(str ''argumentation'', Words [[1087, 1086, 1090, 1086, 1084, 1091, 32, 1095, 1090, 1086],
                 [1089, 1083, 1077, 1076, 1086, 1074, 1072, 1090, 1077, 1083, 1100, 1085, 1086],
                 [1090, 1072, 1082, 1080, 1084, 32, 1086, 1073, 1088, 1072, 1079, 1086, 1084],
                 [1101, 1090, 1086, 32, 1076, 1086, 1082, 1072, 1079, 1099, 1074, 1072, 1077, 1090],
                 [1085, 1072, 32, 1086, 1089, 1085, 1086, 1074, 1077],
                 [1080, 1089, 1093, 1086, 1076, 1103, 32, 1080, 1079]]),
       ([1086, 1094, 1077, 1085, 1082, 1072], Words [[1085, 1072, 1076, 1077, 1078, 1085, 1086, 1089, 1090, 1100],
                 [1076, 1086, 1089, 1090, 1086, 1074, 1077, 1088, 1085, 1086, 1089, 1090, 1100],
                 [1086, 1073, 1086, 1089, 1085, 1086, 1074, 1072, 1085, 1085, 1086, 1089, 1090, 1100],
                 [1087, 1088, 1086, 1074, 1077, 1088, 1082, 1072],
                 [1074, 1077, 1088, 1080, 1092, 1080, 1082, 1072, 1094, 1080, 1103],
                 [1087, 1086, 1076, 1090, 1074, 1077, 1088, 1078, 1076, 1077, 1085, 1080, 1077]]),
       ([1072, 1085, 1072, 1083, 1080, 1079], Words [[1088, 1072, 1089, 1089, 1084, 1086, 1090, 1088, 1080, 1084],
                 [1087, 1088, 1086, 1072, 1085, 1072, 1083, 1080, 1079, 1080, 1088, 1091, 1077, 1084],
                 [1080, 1089, 1089, 1083, 1077, 1076, 1091, 1077, 1084],
                 [1088, 1072, 1079, 1073, 1077, 1088, 1077, 1084], [1080, 1079, 1091, 1095, 1080, 1084],
                 [1086, 1094, 1077, 1085, 1080, 1084]]),
       ([1086, 1087, 1088, 1086, 1074, 1077, 1088, 1078, 1077, 1085, 1080, 1077], Words [[1086, 1087, 1088, 1086, 1074, 1077, 1088, 1075, 1072, 1077, 1090],
                 [1087, 1088, 1086, 1090, 1080, 1074, 1086, 1088, 1077, 1095, 1080, 1090],
                 [1085, 1077, 32, 1089, 1086, 1075, 1083, 1072, 1089, 1091, 1077, 1090, 1089, 1103],
                 [1074, 1099, 1079, 1099, 1074, 1072, 1077, 1090, 32, 1089, 1086, 1084, 1085, 1077, 1085, 1080, 1103],
                 [1090, 1088, 1077, 1073, 1091, 1077, 1090, 32, 1087, 1088, 1086, 1074, 1077, 1088, 1082, 1080]]),
       (str ''structure_keywords'', Pairs [([1077, 1089, 1083, 1080], [1090, 1086]), ([1093, 1086, 1090, 1103], [1085, 1086]),
                 ([1085, 1077, 1089, 1084, 1086, 1090, 1088, 1103, 32, 1085, 1072], [1074, 1089, 1077, 32, 1078, 1077])])])"

definition SYSTEMIC_MARKERS :: "language \<Rightarrow> markers_data" where
  "SYSTEMIC_MARKERS lang = (case lang of
     EN \<Rightarrow>
      [(str ''interconnections'', Words [str ''interconnection'', str ''link between'', str ''affects'', str ''depends on'',
                 str ''components'', str ''system elements'']),
       (str ''structure'', Words [str ''structure'', str ''organization'', str ''hierarchy'', str ''subsystem'']),
       (str ''dynamics'', Words [str ''cycle'', str ''feedback loop'', str ''system behavior'', str ''emergence'']),
       (str ''boundaries'', Words [str ''system boundaries'', str ''external environment'', str ''internal factors'']),
       (str ''causal_keywords'', Words [str ''cause'', str ''effect'', str ''leads to''])]
   | RU \<Rightarrow>
      [(str ''interconnections'', Words [[1074, 1079, 1072, 1080, 1084, 1086, 1089, 1074, 1103, 1079, 1100],
                 [1089, 1074, 1103, 1079, 1100, 32, 1084, 1077, 1078, 1076, 1091],
                 [1074, 1083, 1080, 1103, 1077, 1090, 32, 1085, 1072],
                 [1079, 1072, 1074, 1080, 1089, 1080, 1090, 32, 1086, 1090],
                 [1082, 1086, 1084, 1087, 1086, 1085, 1077, 1085, 1090, 1099],
                 [1101, 1083, 1077, 1084, 1077, 1085, 1090, 1099, 32, 1089, 1080, 1089, 1090, 1077, 1084, 1099]]),
       (str ''structure'', Words [[1089, 1090, 1088, 1091, 1082, 1090, 1091, 1088, 1072],
                 [1086, 1088, 1075, 1072, 1085, 1080, 1079, 1072, 1094, 1080, 1103],
                 [1080, 1077, 1088, 1072, 1088, 1093, 1080, 1103],
                 [1087, 1086, 1076, 1089, 1080, 1089, 1090, 1077, 1084, 1072]]),
       (str ''dynamics'', Words [[1094, 1080, 1082, 1083],
                 [1086, 1073, 1088, 1072, 1090, 1085, 1072, 1103, 32, 1089, 1074, 1103, 1079, 1100],
                 [1087, 1086, 1074, 1077, 1076, 1077, 1085, 1080, 1077, 32, 1089, 1080, 1089, 1090, 1077, 1084, 1099],
                 [1101, 1084, 1077, 1088, 1076, 1078, 1077, 1085, 1090, 1085, 1086, 1089, 1090, 1100]]),
       (str ''boundaries'', Words [[1075, 1088, 1072, 1085, 1080, 1094, 1099, 32, 1089, 1080, 1089, 1090, 1077, 1084, 1099],
                 [1074, 1085, 1077, 1096, 1085, 1103, 1103, 32, 1089, 1088, 1077, 1076, 1072],
                 [1074, 1085, 1091, 1090, 1088, 1077, 1085, 1085, 1080, 1077, 32, 1092, 1072, 1082, 1090, 1086, 1088, 1099]]),
       (str ''causal_keywords'', Words [[1087, 1088, 1080, 1095, 1080, 1085, 1072],
                 [1089, 1083, 1077, 1076, 1089, 1090, 1074, 1080, 1077],
                 [1087, 1088, 1080, 1074, 1086, 1076, 1080, 1090, 32, 1082]])])"

definition LATERAL_MARKERS :: "language \<Rightarrow> markers_data" where
  "LATERAL_MARKERS lang = (case lang of
     EN \<Rightarrow>
      [(str ''analogies'', Words [str ''analogy'', str ''similar to'', str ''as if'', str ''metaphor'']),
       (str ''re-framing'', Words [str ''re-evaluate'', str ''new perspective'', str ''unconventional'',
                 str ''different view'']),
       (str ''provocation'', Words [str ''what if'', str ''imagine'', str ''and if'']),
       (str ''random associations'', Words [str ''random word'', str ''unrelated'', str ''sudden idea'']),
       (str ''question_phrases'', Words [str ''why not'', str ''what if''])]
   | RU \<Rightarrow>
      [([1072, 1085, 1072, 1083, 1086, 1075, 1080, 1080], Words [[1072, 1085, 1072, 1083, 1086, 1075, 1080, 1103],
                 [1087, 1086, 1093, 1086, 1078, 1077, 32, 1085, 1072],
                 [1082, 1072, 1082, 32, 1073, 1091, 1076, 1090, 1086],
                 [1084, 1077, 1090, 1072, 1092, 1086, 1088, 1072]]),
       ([1087, 1077, 1088, 1077, 1086, 1089, 1084, 1099, 1089, 1083, 1077, 1085, 1080, 1077], Words [[1087, 1077, 1088, 1077, 1086, 1089, 1084, 1099, 1089, 1083, 1080, 1090, 1100],
                 [1087, 1086, 45, 1085, 1086, 1074, 1086, 1084, 1091],
                 [1085, 1077, 1089, 1090, 1072, 1085, 1076, 1072, 1088, 1090, 1085, 1086],
                 [1076, 1088, 1091, 1075, 1086, 1081, 32, 1074, 1079, 1075, 1083, 1103, 1076]]),
       ([1087, 1088, 1086, 1074, 1086, 1082, 1072, 1094, 1080, 1103], Words [[1095, 1090, 1086, 32, 1077, 1089, 1083, 1080],
                 [1087, 1088, 1077, 1076, 1089, 1090, 1072, 1074, 1080, 1084],
                 [1072, 32, 1077, 1089, 1083, 1080, 32, 1073, 1099]]),
       ([1089, 1083, 1091, 1095, 1072, 1081, 1085, 1099, 1077, 32, 1072, 1089, 1089, 1086, 1094, 1080, 1072, 1094, 1080, 1080], Words [[1089, 1083, 1091, 1095, 1072, 1081, 1085, 1086, 1077, 32, 1089, 1083, 1086, 1074, 1086],
                 [1085, 1077, 32, 1089, 1074, 1103, 1079, 1072, 1085, 1086],
                 [1074, 1085, 1077, 1079, 1072, 1087, 1085, 1072, 1103, 32, 1080, 1076, 1077, 1103]]),
       (str ''question_phrases'', Words [[1087, 1086, 1095, 1077, 1084, 1091, 32, 1073, 1099, 32, 1085, 1077],
                 [1072, 32, 1095, 1090, 1086, 32, 1077, 1089, 1083, 1080]])])"

definition STRATEGIC_MARKERS :: "language \<Rightarrow> markers_data" where
  "STRATEGIC_MARKERS lang = (case lang of
     EN \<Rightarrow>
      [(str ''goals'', Words [str ''goal'', str ''objective'', str ''outcome'', str ''achieve'']),
       (str ''planning'', Words [str ''plan'', str ''strategy'', str ''stages'', str ''actions'', str ''steps'']),
       (str ''future'', Words [str ''long-term'', str ''perspective'', str ''future'', str ''forecast'',
                 str ''scenario'']),
       (str ''resources'', Words [str ''resources'', str ''budget'', str ''time'', str ''people'', str ''assets'']),
       (str ''risks_opportunities'', Words [str ''risk'', str ''opportunity'', str ''threat'', str ''potential'']),
       (str ''priority_keywords'', Words [str ''priority'', str ''choice''])]
   | RU \<Rightarrow>
      [([1094, 1077, 1083, 1080], Words [[1094, 1077, 1083, 1100], [1079, 1072, 1076, 1072, 1095, 1072],
                 [1088, 1077, 1079, 1091, 1083, 1100, 1090, 1072, 1090],
                 [1076, 1086, 1089, 1090, 1080, 1095, 1100]]),
       ([1087, 1083, 1072, 1085, 1080, 1088, 1086, 1074, 1072, 1085, 1080, 1077], Words [[1087, 1083, 1072, 1085], [1089, 1090, 1088, 1072, 1090, 1077, 1075, 1080, 1103],
                 [1101, 1090, 1072, 1087, 1099], [1076, 1077, 1081, 1089, 1090, 1074, 1080, 1103],
                 [1096, 1072, 1075, 1080]]),
       ([1073, 1091, 1076, 1091, 1097, 1077, 1077], Words [[1076, 1086, 1083, 1075, 1086, 1089, 1088, 1086, 1095, 1085, 1099, 1081],
                 [1087, 1077, 1088, 1089, 1087, 1077, 1082, 1090, 1080, 1074, 1072],
                 [1073, 1091, 1076, 1091, 1097, 1077, 1077], [1087, 1088, 1086, 1075, 1085, 1086, 1079],
                 [1089, 1094, 1077, 1085, 1072, 1088, 1080, 1081]]),
       ([1088, 1077, 1089, 1091, 1088, 1089, 1099], Words [[1088, 1077, 1089, 1091, 1088, 1089, 1099], [1073, 1102, 1076, 1078, 1077, 1090],
                 [1074, 1088, 1077, 1084, 1103], [1083, 1102, 1076, 1080],
                 [1072, 1082, 1090, 1080, 1074, 1099]]),
       ([1088, 1080, 1089, 1082, 1080, 95, 1074, 1086, 1079, 1084, 1086, 1078, 1085, 1086, 1089, 1090, 1080], Words [[1088, 1080, 1089, 1082],
                 [1074, 1086, 1079, 1084, 1086, 1078, 1085, 1086, 1089, 1090, 1100],
                 [1091, 1075, 1088, 1086, 1079, 1072],
                 [1087, 1086, 1090, 1077, 1085, 1094, 1080, 1072, 1083]]),
       (str ''priority_keywords'', Words [[1087, 1088, 1080, 1086, 1088, 1080, 1090, 1077, 1090], [1074, 1099, 1073, 1086, 1088]])])"

definition EMPATHETIC_MARKERS :: "language \<Rightarrow> markers_data" where
  "EMPATHETIC_MARKERS lang = (case lang of
     EN \<Rightarrow>
      [(str ''perspective'', Words [str ''viewpoint'', str ''position'',
                 [116, 104, 114, 111, 117, 103, 104, 32, 115, 111, 109, 101, 111, 110, 101, 39, 115, 32, 101, 121, 101, 115]]),
       (str ''feelings'', Words [str ''feelings'', str ''emotions'', str ''experiences'', str ''sensations'']),
       (str ''motivation'', Words [str ''motivation'', str ''needs'', str ''desires'', str ''why'']),
       (str ''understanding'', Words [str ''understand'', str ''see'', str ''realize'', str ''imagine'']),
       (str ''pronouns'', Words [str ''we'', str ''they'', str ''their'']),
       (str ''people_refs'', Words [str ''people'', str ''clients'', str ''users''])]
   | RU \<Rightarrow>
      [([1087, 1077, 1088, 1089, 1087, 1077, 1082, 1090, 1080, 1074, 1072], Words [[1090, 1086, 1095, 1082, 1072, 32, 1079, 1088, 1077, 1085, 1080, 1103],
                 [1087, 1086, 1079, 1080, 1094, 1080, 1103],
                 [1075, 1083, 1072, 1079, 1072, 1084, 1080, 32, 1082, 1086, 1075, 1086, 45, 1090, 1086]]),
       ([1095, 1091, 1074, 1089, 1090, 1074, 1072], Words [[1095, 1091, 1074, 1089, 1090, 1074, 1072], [1101, 1084, 1086, 1094, 1080, 1080],
                 [1087, 1077, 1088, 1077, 1078, 1080, 1074, 1072, 1085, 1080, 1103],
                 [1086, 1097, 1091, 1097, 1077, 1085, 1080, 1103]]),
       ([1084, 1086, 1090, 1080, 1074, 1072, 1094, 1080, 1103], Words [[1084, 1086, 1090, 1080, 1074, 1072, 1094, 1080, 1103],
                 [1087, 1086, 1090, 1088, 1077, 1073, 1085, 1086, 1089, 1090, 1080],
                 [1078, 1077, 1083, 1072, 1085, 1080, 1103], [1087, 1086, 1095, 1077, 1084, 1091]]),
       ([1087, 1086, 1085, 1080, 1084, 1072, 1085, 1080, 1077], Words [[1087, 1086, 1085, 1103, 1090, 1100], [1091, 1074, 1080, 1076, 1077, 1090, 1100],
                 [1086, 1089, 1086, 1079, 1085, 1072, 1090, 1100],
                 [1087, 1088, 1077, 1076, 1089, 1090, 1072, 1074, 1080, 1090, 1100]]),
       (str ''pronouns'', Words [[1084, 1099], [1086, 1085, 1080], [1080, 1093]]),
       (str ''people_refs'', Words [[1083, 1102, 1076, 1080], [1082, 1083, 1080, 1077, 1085, 1090, 1099],
                 [1087, 1086, 1083, 1100, 1079, 1086, 1074, 1072, 1090, 1077, 1083, 1080]])])"

definition ABSTRACT_MARKERS :: "language \<Rightarrow> markers_data" where
  "ABSTRACT_MARKERS lang = (case lang of
     EN \<Rightarrow>
      [(str ''concepts'', Words [str ''concept'', str ''idea'', str ''principle'', str ''theory'', str ''model'']),
       (str ''generalization'', Words [str ''generalization'', str ''abstraction'', str ''general'', str ''universal'']),
       (str ''classification'', Words [str ''classification'', str ''category'', str ''type'', str ''kind'']),
       (str ''symbols'', Words [str ''symbol'', str ''sign'', str ''representation'']),
       (str ''specific_examples_negators'', Words [str ''for example'', str ''specifically''])]
   | RU \<Rightarrow>
      [([1082, 1086, 1085, 1094, 1077, 1087, 1094, 1080, 1080], Words [[1082, 1086, 1085, 1094, 1077, 1087, 1094, 1080, 1103], [1080, 1076, 1077, 1103],
                 [1087, 1088, 1080, 1085, 1094, 1080, 1087], [1090, 1077, 1086, 1088, 1080, 1103],
                 [1084, 1086, 1076, 1077, 1083, 1100]]),
       ([1086, 1073, 1086, 1073, 1097, 1077, 1085, 1080, 1077], Words [[1086, 1073, 1086, 1073, 1097, 1077, 1085, 1080, 1077],
                 [1072, 1073, 1089, 1090, 1088, 1072, 1082, 1094, 1080, 1103],
                 [1086, 1073, 1097, 1080, 1081],
                 [1091, 1085, 1080, 1074, 1077, 1088, 1089, 1072, 1083, 1100, 1085, 1099, 1081]]),
       ([1082, 1083, 1072, 1089, 1089, 1080, 1092, 1080, 1082, 1072, 1094, 1080, 1103], Words [[1082, 1083, 1072, 1089, 1089, 1080, 1092, 1080, 1082, 1072, 1094, 1080, 1103],
                 [1082, 1072, 1090, 1077, 1075, 1086, 1088, 1080, 1103], [1090, 1080, 1087],
                 [1074, 1080, 1076]]),
       ([1089, 1080, 1084, 1074, 1086, 1083, 1099], Words [[1089, 1080, 1084, 1074, 1086, 1083], [1079, 1085, 1072, 1082],
                 [1087, 1088, 1077, 1076, 1089, 1090, 1072, 1074, 1083, 1077, 1085, 1080, 1077]]),
       (str ''specific_examples_negators'', Words [[1085, 1072, 1087, 1088, 1080, 1084, 1077, 1088],
                 [1082, 1086, 1085, 1082, 1088, 1077, 1090, 1085, 1086]])])"

definition PRACTICAL_MARKERS :: "language \<Rightarrow> markers_data" where
  "PRACTICAL_MARKERS lang = (case lang of
     EN \<Rightarrow>
      [(str ''action'', Words [str ''action'', str ''implementation'', str ''application'', str ''do'', str ''execute'']),
       (str ''result'', Words [str ''result'', str ''effect'', str ''benefit'', str ''advantage'', str ''achievement'']),
       (str ''resources'', Words [str ''resources'', str ''budget'', str ''time'', str ''tools'', str ''materials'']),
       (str ''constraints'', Words [str ''constraint'', str ''obstacle'', str ''difficulty'', str ''opportunity'']),
       (str ''action_verbs'', Words [str ''create'', str ''develop'', str ''implement'', str ''optimize'', str ''improve''])]
   | RU \<Rightarrow>
      [([1076, 1077, 1081, 1089, 1090, 1074, 1080, 1077], Words [[1076, 1077, 1081, 1089, 1090, 1074, 1080, 1077],
                 [1088, 1077, 1072, 1083, 1080, 1079, 1072, 1094, 1080, 1103],
                 [1087, 1088, 1080, 1084, 1077, 1085, 1077, 1085, 1080, 1077],
                 [1089, 1076, 1077, 1083, 1072, 1090, 1100],
                 [1074, 1099, 1087, 1086, 1083, 1085, 1080, 1090, 1100]]),
       ([1088, 1077, 1079, 1091, 1083, 1100, 1090, 1072, 1090], Words [[1088, 1077, 1079, 1091, 1083, 1100, 1090, 1072, 1090],
                 [1101, 1092, 1092, 1077, 1082, 1090], [1087, 1086, 1083, 1100, 1079, 1072],
                 [1074, 1099, 1075, 1086, 1076, 1072],
                 [1076, 1086, 1089, 1090, 1080, 1078, 1077, 1085, 1080, 1077]]),
       ([1088, 1077, 1089, 1091, 1088, 1089, 1099], Words [[1088, 1077, 1089, 1091, 1088, 1089, 1099], [1073, 1102, 1076, 1078, 1077, 1090],
                 [1074, 1088, 1077, 1084, 1103],
                 [1080, 1085, 1089, 1090, 1088, 1091, 1084, 1077, 1085, 1090, 1099],
                 [1084, 1072, 1090, 1077, 1088, 1080, 1072, 1083, 1099]]),
       ([1086, 1075, 1088, 1072, 1085, 1080, 1095, 1077, 1085, 1080, 1103], Words [[1086, 1075, 1088, 1072, 1085, 1080, 1095, 1077, 1085, 1080, 1077],
                 [1087, 1088, 1077, 1087, 1103, 1090, 1089, 1090, 1074, 1080, 1077],
                 [1089, 1083, 1086, 1078, 1085, 1086, 1089, 1090, 1100],
                 [1074, 1086, 1079, 1084, 1086, 1078, 1085, 1086, 1089, 1090, 1100]]),
       (str ''action_verbs'', Words [[1089, 1086, 1079, 1076, 1072, 1090, 1100],
                 [1088, 1072, 1079, 1088, 1072, 1073, 1086, 1090, 1072, 1090, 1100],
                 [1074, 1085, 1077, 1076, 1088, 1080, 1090, 1100],
                 [1086, 1087, 1090, 1080, 1084, 1080, 1079, 1080, 1088, 1086, 1074, 1072, 1090, 1100],
                 [1091, 1083, 1091, 1095, 1096, 1080, 1090, 1100]])])"

definition INTEGRATIVE_MARKERS :: "language \<Rightarrow> markers_data" where
  "INTEGRATIVE_MARKERS lang = (case lang of
     EN \<Rightarrow>
      [(str ''synthesis'', Words [str ''integration'', str ''synthesis'', str ''combination'', str ''fusion'',
                 str ''holistic'', str ''unified'', str ''merger'']),
       (str ''diversity'', Words [str ''different viewpoints'', str ''different approaches'', str ''multifaceted'',
                 str ''diversity'', str ''includes'']),
       (str ''balance'', Words [str ''balance'', str ''harmony'', str ''compromise'', str ''coordination'',
                 str ''optimal combination'']),
       (str ''bonus_keywords'', Words [str ''win-win'', str ''synergy''])]
   | RU \<Rightarrow>
      [([1089, 1080, 1085, 1090, 1077, 1079], Words [[1080, 1085, 1090, 1077, 1075, 1088, 1072, 1094, 1080, 1103],
                 [1089, 1080, 1085, 1090, 1077, 1079],
                 [1086, 1073, 1098, 1077, 1076, 1080, 1085, 1077, 1085, 1080, 1077],
                 [1082, 1086, 1084, 1073, 1080, 1085, 1072, 1094, 1080, 1103],
                 [1094, 1077, 1083, 1086, 1089, 1090, 1085, 1099, 1081],
                 [1077, 1076, 1080, 1085, 1099, 1081], [1089, 1083, 1080, 1103, 1085, 1080, 1077]]),
       ([1088, 1072, 1079, 1085, 1086, 1086, 1073, 1088, 1072, 1079, 1080, 1077], Words [[1088, 1072, 1079, 1083, 1080, 1095, 1085, 1099, 1077, 32, 1090, 1086, 1095, 1082, 1080, 32, 1079, 1088, 1077, 1085, 1080, 1103],
                 [1088, 1072, 1079, 1085, 1099, 1077, 32, 1087, 1086, 1076, 1093, 1086, 1076, 1099],
                 [1084, 1085, 1086, 1075, 1086, 1089, 1090, 1086, 1088, 1086, 1085, 1085, 1080, 1081],
                 [1088, 1072, 1079, 1085, 1086, 1086, 1073, 1088, 1072, 1079, 1080, 1077],
                 [1074, 1082, 1083, 1102, 1095, 1072, 1077, 1090, 32, 1074, 32, 1089, 1077, 1073, 1103]]),
       ([1073, 1072, 1083, 1072, 1085, 1089], Words [[1073, 1072, 1083, 1072, 1085, 1089], [1075, 1072, 1088, 1084, 1086, 1085, 1080, 1103],
                 [1082, 1086, 1084, 1087, 1088, 1086, 1084, 1080, 1089, 1089],
                 [1089, 1086, 1075, 1083, 1072, 1089, 1086, 1074, 1072, 1085, 1080, 1077],
                 [1086, 1087, 1090, 1080, 1084, 1072, 1083, 1100, 1085, 1086, 1077, 32, 1089, 1086, 1095, 1077, 1090, 1072, 1085, 1080, 1077]]),
       (str ''bonus_keywords'', Words [str ''win-win'', [1089, 1080, 1085, 1077, 1088, 1075, 1080, 1103]])])"

definition EVOLUTIONARY_MARKERS :: "language \<Rightarrow> markers_data" where
  "EVOLUTIONARY_MARKERS lang = (case lang of
     EN \<Rightarrow>
      [(str ''development'', Words [str ''development'', str ''evolution'', str ''progress'', str ''growth'', str ''change'']),
       (str ''adaptation'', Words [str ''adaptation'', str ''adjustment'', str ''flexibility'', str ''response to changes'']),
       (str ''iteration'', Words [str ''iteration'', str ''repetition'', str ''cycle'', str ''gradually'', str ''phases'']),
       (str ''feedback'', Words [str ''feedback'', str ''lessons'', str ''experience'', str ''correction'']),
       (str ''bonus_keywords'', Words [str ''learning'', str ''improvement''])]
   | RU \<Rightarrow>
      [([1088, 1072, 1079, 1074, 1080, 1090, 1080, 1077], Words [[1088, 1072, 1079, 1074, 1080, 1090, 1080, 1077],
                 [1101, 1074, 1086, 1083, 1102, 1094, 1080, 1103],
                 [1087, 1088, 1086, 1075, 1088, 1077, 1089, 1089], [1088, 1086, 1089, 1090],
                 [1080, 1079, 1084, 1077, 1085, 1077, 1085, 1080, 1077]]),
       ([1072, 1076, 1072, 1087, 1090, 1072, 1094, 1080, 1103], Words [[1072, 1076, 1072, 1087, 1090, 1072, 1094, 1080, 1103],
                 [1087, 1088, 1080, 1089, 1087, 1086, 1089, 1086, 1073, 1083, 1077, 1085, 1080, 1077],
                 [1075, 1080, 1073, 1082, 1086, 1089, 1090, 1100],
                 [1088, 1077, 1072, 1082, 1094, 1080, 1103, 32, 1085, 1072, 32, 1080, 1079, 1084, 1077, 1085, 1077, 1085, 1080, 1103]]),
       ([1080, 1090, 1077, 1088, 1072, 1094, 1080, 1103], Words [[1080, 1090, 1077, 1088, 1072, 1094, 1080, 1103],
                 [1087, 1086, 1074, 1090, 1086, 1088, 1077, 1085, 1080, 1077], [1094, 1080, 1082, 1083],
                 [1087, 1086, 1089, 1090, 1077, 1087, 1077, 1085, 1085, 1086], [1092, 1072, 1079, 1099]]),
       ([1086, 1073, 1088, 1072, 1090, 1085, 1072, 1103, 95, 1089, 1074, 1103, 1079, 1100], Words [[1086, 1073, 1088, 1072, 1090, 1085, 1072, 1103, 32, 1089, 1074, 1103, 1079, 1100],
                 [1091, 1088, 1086, 1082, 1080], [1086, 1087, 1099, 1090],
                 [1082, 1086, 1088, 1088, 1077, 1082, 1090, 1080, 1088, 1086, 1074, 1082, 1072]]),
       (str ''bonus_keywords'', Words [[1086, 1073, 1091, 1095, 1077, 1085, 1080, 1077],
                 [1091, 1083, 1091, 1095, 1096, 1077, 1085, 1080, 1077]])])"

definition CONVERGENT_MARKERS :: "language \<Rightarrow> markers_data" where
  "CONVERGENT_MARKERS lang = (case lang of
     EN \<Rightarrow>
      [(str ''choice'', Words [str ''choice'', str ''decision'', str ''optimal'', str ''best'', str ''single'']),
       (str ''criteria'', Words [str ''criteria'', str ''evaluation'', str ''comparison'', str ''analysis'',
                 str ''filter'']),
       (str ''narrowing'', Words [str ''narrowing'', str ''focus'', str ''specific'', str ''particular'']),
       (str ''conclusion'', Words [str ''conclusion'', str ''inference'', str ''summary'', str ''result'']),
       (str ''logical_connectors_leading_to_conclusion'', Words [str ''thus'', str ''therefore'', str ''consequently''])]
   | RU \<Rightarrow>
      [([1074, 1099, 1073, 1086, 1088], Words [[1074, 1099, 1073, 1086, 1088], [1088, 1077, 1096, 1077, 1085, 1080, 1077],
                 [1086, 1087, 1090, 1080, 1084, 1072, 1083, 1100, 1085, 1099, 1081],
                 [1083, 1091, 1095, 1096, 1080, 1081],
                 [1077, 1076, 1080, 1085, 1089, 1090, 1074, 1077, 1085, 1085, 1099, 1081]]),
       ([1082, 1088, 1080, 1090, 1077, 1088, 1080, 1080], Words [[1082, 1088, 1080, 1090, 1077, 1088, 1080, 1080], [1086, 1094, 1077, 1085, 1082, 1072],
                 [1089, 1088, 1072, 1074, 1085, 1077, 1085, 1080, 1077],
                 [1072, 1085, 1072, 1083, 1080, 1079], [1092, 1080, 1083, 1100, 1090, 1088]]),
       ([1089, 1091, 1078, 1077, 1085, 1080, 1077], Words [[1089, 1091, 1078, 1077, 1085, 1080, 1077], [1092, 1086, 1082, 1091, 1089],
                 [1082, 1086, 1085, 1082, 1088, 1077, 1090, 1085, 1099, 1081],
                 [1089, 1087, 1077, 1094, 1080, 1092, 1080, 1095, 1077, 1089, 1082, 1080, 1081]]),
       ([1079, 1072, 1082, 1083, 1102, 1095, 1077, 1085, 1080, 1077], Words [[1079, 1072, 1082, 1083, 1102, 1095, 1077, 1085, 1080, 1077],
                 [1074, 1099, 1074, 1086, 1076], [1080, 1090, 1086, 1075],
                 [1088, 1077, 1079, 1091, 1083, 1100, 1090, 1072, 1090]]),
       (str ''logical_connectors_leading_to_conclusion'', Words [[1090, 1072, 1082, 1080, 1084, 32, 1086, 1073, 1088, 1072, 1079, 1086, 1084],
                 [1089, 1083, 1077, 1076, 1086, 1074, 1072, 1090, 1077, 1083, 1100, 1085, 1086],
                 [1087, 1086, 1101, 1090, 1086, 1084, 1091]])])"

definition DIVERGENT_MARKERS :: "language \<Rightarrow> markers_data" where
  "DIVERGENT_MARKERS lang = (case lang of
     EN \<Rightarrow>
      [(str ''generation'', Words [str ''generation'', str ''idea'', str ''option'', str ''alternative'',
                 str ''suggestion'']),
       (str ''expansion'', Words [str ''expansion'', str ''multitude'', str ''variety'', str ''more'', str ''new'']),
       (str ''brainstorming'', Words [str ''brainstorming'', str ''creativity'', str ''unconventional'', str ''creative'']),
       (str ''exploration'', Words [str ''exploration'', str ''study'', str ''search'', str ''discovery'']),
       (str ''question_phrases'', Words [str ''how else can'', str ''what if''])]
   | RU \<Rightarrow>
      [([1075, 1077, 1085, 1077, 1088, 1072, 1094, 1080, 1103], Words [[1075, 1077, 1085, 1077, 1088, 1072, 1094, 1080, 1103], [1080, 1076, 1077, 1103],
                 [1074, 1072, 1088, 1080, 1072, 1085, 1090],
                 [1072, 1083, 1100, 1090, 1077, 1088, 1085, 1072, 1090, 1080, 1074, 1072],
                 [1087, 1088, 1077, 1076, 1083, 1086, 1078, 1077, 1085, 1080, 1077]]),
       ([1088, 1072, 1089, 1096, 1080, 1088, 1077, 1085, 1080, 1077], Words [[1088, 1072, 1089, 1096, 1080, 1088, 1077, 1085, 1080, 1077],
                 [1084, 1085, 1086, 1078, 1077, 1089, 1090, 1074, 1086],
                 [1088, 1072, 1079, 1085, 1086, 1086, 1073, 1088, 1072, 1079, 1080, 1077],
                 [1073, 1086, 1083, 1100, 1096, 1077], [1085, 1086, 1074, 1099, 1077]]),
       ([1084, 1086, 1079, 1075, 1086, 1074, 1086, 1081, 95, 1096, 1090, 1091, 1088, 1084], Words [[1084, 1086, 1079, 1075, 1086, 1074, 1086, 1081, 32, 1096, 1090, 1091, 1088, 1084],
                 [1082, 1088, 1077, 1072, 1090, 1080, 1074, 1085, 1086, 1089, 1090, 1100],
                 [1085, 1077, 1089, 1090, 1072, 1085, 1076, 1072, 1088, 1090, 1085, 1099, 1081],
                 [1090, 1074, 1086, 1088, 1095, 1077, 1089, 1082, 1080, 1081]]),
       ([1080, 1089, 1089, 1083, 1077, 1076, 1086, 1074, 1072, 1085, 1080, 1077], Words [[1080, 1089, 1089, 1083, 1077, 1076, 1086, 1074, 1072, 1085, 1080, 1077],
                 [1080, 1079, 1091, 1095, 1077, 1085, 1080, 1077], [1087, 1086, 1080, 1089, 1082],
                 [1086, 1090, 1082, 1088, 1099, 1090, 1080, 1077]]),
       (str ''question_phrases'', Words [[1082, 1072, 1082, 32, 1077, 1097, 1077, 32, 1084, 1086, 1078, 1085, 1086],
                 [1095, 1090, 1086, 32, 1077, 1089, 1083, 1080]])])"

definition REFLECTIVE_MARKERS :: "language \<Rightarrow> markers_data" where
  "REFLECTIVE_MARKERS lang = (case lang of
     EN \<Rightarrow>
      [(str ''self_analysis'', Words [str ''reflection'', str ''self-analysis'', str ''contemplation'',
                 str ''my experience'', str ''I think'']),
       (str ''lessons'', Words [str ''lesson'', str ''conclusion'', str ''experience'', str ''extract'', str ''learn'']),
       (str ''process'', Words [str ''thinking process'', str ''how I thought'', str ''my approach'', str ''strategy'']),
       (str ''reassessment'', Words [str ''reassessment'', str ''re-evaluation'', str ''adjustment'', str ''change of mind'']),
       (str ''bonus_keywords'', Words [str ''future improvement'', str ''reapplication''])]
   | RU \<Rightarrow>
      [([1089, 1072, 1084, 1086, 1072, 1085, 1072, 1083, 1080, 1079], Words [[1088, 1077, 1092, 1083, 1077, 1082, 1089, 1080, 1103],
                 [1089, 1072, 1084, 1086, 1072, 1085, 1072, 1083, 1080, 1079],
                 [1086, 1089, 1084, 1099, 1089, 1083, 1077, 1085, 1080, 1077],
                 [1084, 1086, 1081, 32, 1086, 1087, 1099, 1090], [1103, 32, 1076, 1091, 1084, 1072, 1102]]),
       ([1091, 1088, 1086, 1082, 1080], Words [[1091, 1088, 1086, 1082], [1074, 1099, 1074, 1086, 1076], [1086, 1087, 1099, 1090],
                 [1080, 1079, 1074, 1083, 1077, 1095, 1100],
                 [1085, 1072, 1091, 1095, 1080, 1090, 1100, 1089, 1103]]),
       ([1087, 1088, 1086, 1094, 1077, 1089, 1089], Words [[1087, 1088, 1086, 1094, 1077, 1089, 1089, 32, 1084, 1099, 1096, 1083, 1077, 1085, 1080, 1103],
                 [1082, 1072, 1082, 32, 1103, 32, 1076, 1091, 1084, 1072, 1083],
                 [1084, 1086, 1081, 32, 1087, 1086, 1076, 1093, 1086, 1076],
                 [1089, 1090, 1088, 1072, 1090, 1077, 1075, 1080, 1103]]),
       ([1087, 1077, 1088, 1077, 1086, 1094, 1077, 1085, 1082, 1072], Words [[1087, 1077, 1088, 1077, 1086, 1094, 1077, 1085, 1082, 1072],
                 [1087, 1077, 1088, 1077, 1086, 1089, 1084, 1099, 1089, 1083, 1077, 1085, 1080, 1077],
                 [1082, 1086, 1088, 1088, 1077, 1082, 1090, 1080, 1088, 1086, 1074, 1082, 1072],
                 [1080, 1079, 1084, 1077, 1085, 1077, 1085, 1080, 1077, 32, 1084, 1085, 1077, 1085, 1080, 1103]]),
       (str ''bonus_keywords'', Words [[1073, 1091, 1076, 1091, 1097, 1077, 1075, 1086, 32, 1091, 1083, 1091, 1095, 1096, 1077, 1085, 1080, 1103],
                 [1087, 1086, 1074, 1090, 1086, 1088, 1085, 1086, 1075, 1086, 32, 1087, 1088, 1080, 1084, 1077, 1085, 1077, 1085, 1080, 1103]])])"

definition EMOTIONAL_WORDS :: "language \<Rightarrow> emotional_words" where
  "EMOTIONAL_WORDS lang = (case lang of
     EN \<Rightarrow>
      \<lparr>positive = [str ''good'', str ''excellent'', str ''great'', str ''success'', str ''joy'',
                   str ''happy'', str ''positive'', str ''optimistic''],
       negative = [str ''bad'', str ''terrible'', str ''failure'', str ''sadness'', str ''problem'',
                   str ''unhappy'', str ''negative'', str ''pessimistic'']\<rparr>
   | RU \<Rightarrow>
      \<lparr>positive = [[1093, 1086, 1088, 1086, 1096, 1086], [1086, 1090, 1083, 1080, 1095, 1085, 1086],
                   [1087, 1088, 1077, 1082, 1088, 1072, 1089, 1085, 1086], [1091, 1089, 1087, 1077, 1093],
                   [1088, 1072, 1076, 1086, 1089, 1090, 1100],
                   [1089, 1095, 1072, 1089, 1090, 1083, 1080, 1074],
                   [1087, 1086, 1079, 1080, 1090, 1080, 1074, 1085, 1086],
                   [1086, 1087, 1090, 1080, 1084, 1080, 1089, 1090, 1080, 1095, 1085, 1086]],
       negative = [[1087, 1083, 1086, 1093, 1086], [1091, 1078, 1072, 1089, 1085, 1086],
                   [1087, 1088, 1086, 1074, 1072, 1083], [1075, 1088, 1091, 1089, 1090, 1100],
                   [1087, 1088, 1086, 1073, 1083, 1077, 1084, 1072],
                   [1085, 1077, 1089, 1095, 1072, 1089, 1090, 1083, 1080, 1074],
                   [1085, 1077, 1075, 1072, 1090, 1080, 1074, 1085, 1086],
                   [1087, 1077, 1089, 1089, 1080, 1084, 1080, 1089, 1090, 1080, 1095, 1085, 1086]]\<rparr>)"

definition AMBIGUITY_MARKERS :: "language \<Rightarrow> pystr list" where
  "AMBIGUITY_MARKERS lang = (case lang of
     EN \<Rightarrow>
      [str ''unclear'', str ''undefined'', str ''may be'', str ''possibly'', str ''if'',
       str ''or'', str ''ambiguous'', str ''vague'']
   | RU \<Rightarrow>
      [[1085, 1077, 1103, 1089, 1085, 1086],
       [1085, 1077, 1086, 1087, 1088, 1077, 1076, 1077, 1083, 1077, 1085, 1085, 1086],
       [1084, 1086, 1078, 1077, 1090, 32, 1073, 1099, 1090, 1100],
       [1074, 1086, 1079, 1084, 1086, 1078, 1085, 1086], [1077, 1089, 1083, 1080],
       [1080, 1083, 1080],
       [1085, 1077, 1086, 1076, 1085, 1086, 1079, 1085, 1072, 1095, 1085, 1086],
       [1089, 1084, 1091, 1090, 1085, 1086]])"

definition DOMAIN_KEYWORDS :: "language \<Rightarrow> (pystr \<times> pystr list) list" where
  "DOMAIN_KEYWORDS lang = (case lang of
     EN \<Rightarrow>
      [(str ''programming'', [str ''code'', str ''program'', str ''algorithm'', str ''software'',
                 str ''development'', str ''bug'', str ''feature'']),
       (str ''business'', [str ''marketing'', str ''sales'', str ''client'', str ''revenue'', str ''profit'',
                 str ''strategy'', str ''market'']),
       (str ''science'', [str ''science'', str ''research'', str ''data'', str ''experiment'', str ''theory'',
                 str ''hypothesis'', str ''analysis'']),
       (str ''general'', [str ''general''])]
   | RU \<Rightarrow>
      [(str ''programming'', [[1082, 1086, 1076], [1087, 1088, 1086, 1075, 1088, 1072, 1084, 1084, 1072],
                 [1072, 1083, 1075, 1086, 1088, 1080, 1090, 1084],
                 [1088, 1072, 1079, 1088, 1072, 1073, 1086, 1090, 1082, 1072], [1073, 1072, 1075],
                 [1092, 1080, 1095, 1072]]),
       (str ''business'', [[1084, 1072, 1088, 1082, 1077, 1090, 1080, 1085, 1075],
                 [1087, 1088, 1086, 1076, 1072, 1078, 1080], [1082, 1083, 1080, 1077, 1085, 1090],
                 [1076, 1086, 1093, 1086, 1076], [1087, 1088, 1080, 1073, 1099, 1083, 1100],
                 [1089, 1090, 1088, 1072, 1090, 1077, 1075, 1080, 1103], [1088, 1099, 1085, 1086, 1082]]),
       (str ''science'', [[1085, 1072, 1091, 1082, 1072],
                 [1080, 1089, 1089, 1083, 1077, 1076, 1086, 1074, 1072, 1085, 1080, 1077],
                 [1076, 1072, 1085, 1085, 1099, 1077],
                 [1101, 1082, 1089, 1087, 1077, 1088, 1080, 1084, 1077, 1085, 1090],
                 [1090, 1077, 1086, 1088, 1080, 1103], [1075, 1080, 1087, 1086, 1090, 1077, 1079, 1072],
                 [1072, 1085, 1072, 1083, 1080, 1079]]),
       (str ''general'', [[1086, 1073, 1097, 1077, 1077]])])"
section \<open>Localized messages and optional libraries\<close>

text \<open>
  The lookup \<open>t(key, lang)\<close> of localization.py: the translation table is data outside
  the engine, so a message is kept as its key and language.
\<close>

type_synonym message = "pystr \<times> language"

definition t_msg :: "pystr \<Rightarrow> language \<Rightarrow> message" where
  "t_msg key lang = (key, lang)"

text \<open>
  The optional analysis libraries (\<open>HAS_ANALYSIS_LIBS\<close>): \<open>None\<close> when the import failed.
  When present, \<open>textstat.flesch_reading_ease\<close> and the TF-IDF cosine similarity are taken
  as given functions; \<open>None\<close> as their result stands for a raised exception.
\<close>

record analysis_libs =
  flesch_reading_ease :: "pystr \<Rightarrow> real option"
  cosine_similarity :: "pystr list \<Rightarrow> (nat \<Rightarrow> nat \<Rightarrow> real) option"

section \<open>CognitiveValidation\<close>

definition detect_cognitive_biases :: "language \<Rightarrow> pystr \<Rightarrow> pystr list" where
  "detect_cognitive_biases lang tx =
     (let biases = COGNITIVE_BIAS_MARKERS lang;
          thought_lower = lower tx
      in map fst (filter (\<lambda>(bias_name, bias_data).
           let marker_count = count_if (\<lambda>marker. py_in marker thought_lower) (bias_markers bias_data);
               context_matches = list_ex (\<lambda>c. py_in c thought_lower) (bias_context bias_data)
           in marker_count \<ge> 2 \<and> context_matches) biases))"

record conflict =
  conflict_thoughts :: "nat \<times> nat"
  conflict_type :: message
  conflict_confidence :: real

record consistency =
  consistent :: bool
  conflicts :: "conflict list"
  similarity_matrix :: "real list list"

definition no_conflicts :: consistency where
  "no_conflicts = \<lparr>consistent = True, conflicts = [], similarity_matrix = []\<rparr>"

text \<open>The conflicts that the pair \<open>(i, j)\<close> adds, one for each contradiction pair that fires.\<close>

definition pair_conflicts ::
  "language \<Rightarrow> (nat \<Rightarrow> nat \<Rightarrow> real) \<Rightarrow> pystr list \<Rightarrow> nat \<Rightarrow> nat \<Rightarrow> conflict list" where
  "pair_conflicts lang sim texts i j =
     concat (map (\<lambda>(neg, pos).
       if py_in neg (lower (texts ! i)) \<and> py_in pos (lower (texts ! j)) \<and> sim i j < 0.3
       then [\<lparr>conflict_thoughts = (i, j),
              conflict_type = t_msg (str ''semantic_contradiction'') lang,
              conflict_confidence = 1 - sim i j\<rparr>]
       else []) (CONTRADICTION_WORDS lang))"

definition check_logical_consistency ::
  "analysis_libs option \<Rightarrow> language \<Rightarrow> pystr list \<Rightarrow> consistency" where
  "check_logical_consistency libs lang texts =
     (case libs of
        None \<Rightarrow> no_conflicts
      | Some L \<Rightarrow>
          if length texts < 2 then no_conflicts
          else (case cosine_similarity L texts of
                  None \<Rightarrow> no_conflicts
                | Some sim \<Rightarrow>
                    let n = length texts;
                        found = concat (map (\<lambda>i. concat (map (\<lambda>j.
                                  pair_conflicts lang sim texts i j) [i + 1..<n])) [0..<n])
                    in \<lparr>consistent = (found = []), conflicts = found,
                        similarity_matrix = map (\<lambda>i. map (sim i) [0..<n]) [0..<n]\<rparr>))"

section \<open>ThoughtQualityAnalyzer\<close>

text \<open>\<open>re.search(pattern, text)\<close> for the three kinds of evidence pattern.\<close>

fun digits_percent :: "pystr \<Rightarrow> bool" where
  "digits_percent (a # b # cs) = ((isdigit a \<and> b = 37) \<or> digits_percent (b # cs))"
| "digits_percent _ = False"

fun digits_dot_digits :: "pystr \<Rightarrow> bool" where
  "digits_dot_digits (a # b # c # cs) =
     ((isdigit a \<and> b = 46 \<and> isdigit c) \<or> digits_dot_digits (b # c # cs))"
| "digits_dot_digits _ = False"

fun re_search :: "evidence_pattern \<Rightarrow> pystr \<Rightarrow> bool" where
  "re_search DigitsPercent tx = digits_percent tx"
| "re_search DigitsDotDigits tx = digits_dot_digits tx"
| "re_search (Literal w) tx = py_in w tx"

text \<open>
  The optional keyword arguments of \<open>_analyze_specific_strategy\<close>; an argument that is not
  passed is \<open>None\<close>.
\<close>

record bonus_args =
  bonus_structure_keywords :: "(pystr \<times> pystr) list option"
  bonus_causal_keywords :: "pystr list option"
  bonus_question_phrases :: "pystr list option"
  bonus_priority_keywords :: "pystr list option"
  bonus_people_refs :: "(pystr list \<times> pystr list) option"
  bonus_specific_examples_negators :: "pystr list option"
  bonus_action_verbs :: "pystr list option"
  bonus_keywords :: "pystr list option"
  bonus_logical_connectors_conclusion :: "pystr list option"

definition no_bonus :: bonus_args where
  "no_bonus =
     \<lparr>bonus_structure_keywords = None, bonus_causal_keywords = None,
      bonus_question_phrases = None, bonus_priority_keywords = None,
      bonus_people_refs = None, bonus_specific_examples_negators = None,
      bonus_action_verbs = None, bonus_keywords = None,
      bonus_logical_connectors_conclusion = None\<rparr>"

text \<open>An optional list in a condition: \<open>None\<close> and the empty list are both false.\<close>

definition given :: "'a list option \<Rightarrow> 'a list" where
  "given xs = (case xs of None \<Rightarrow> [] | Some ys \<Rightarrow> ys)"

text \<open>\<open>markers_data.get(key)\<close>, read at the type the caller expects.\<close>

definition get_words :: "markers_data \<Rightarrow> pystr \<Rightarrow> pystr list option" where
  "get_words markers_data key =
     (case map_of markers_data key of Some (Words ws) \<Rightarrow> Some ws | _ \<Rightarrow> None)"

definition get_pairs :: "markers_data \<Rightarrow> pystr \<Rightarrow> (pystr \<times> pystr) list option" where
  "get_pairs markers_data key =
     (case map_of markers_data key of Some (Pairs ps) \<Rightarrow> Some ps | _ \<Rightarrow> None)"

text \<open>The categories that the scoring loop skips (they feed the bonus only).\<close>

definition bonus_category :: "pystr \<Rightarrow> bool" where
  "bonus_category category \<longleftrightarrow>
     endswith category (str ''_keywords'') \<or> endswith category (str ''_phrases'')
     \<or> endswith category (str ''_negators'') \<or> endswith category (str ''_verbs'')
     \<or> category = str ''pronouns'' \<or> category = str ''people_refs''"

text \<open>
  The words of a scored category. The catalogue has word pairs under
  \<open>structure_keywords\<close> only, which the loop skips.
\<close>

fun scored_words :: "marker_value \<Rightarrow> pystr list" where
  "scored_words (Words ws) = ws"
| "scored_words (Pairs ps) = []"

definition category_scores :: "pystr \<Rightarrow> nat \<Rightarrow> markers_data \<Rightarrow> real list" where
  "category_scores thought_lower word_count markers_data =
     map (\<lambda>(category, markers).
            let count = count_if (\<lambda>marker. py_in marker thought_lower) (scored_words markers)
            in min 1 (real count / (real word_count * 0.1)))
         (filter (\<lambda>(category, markers). \<not> bonus_category category) markers_data)"

text \<open>The chain of \<open>if\<close> statements that sets \<open>bonus_score\<close>; a later one overrides.\<close>

definition bonus_score_of :: "pystr \<Rightarrow> pystr \<Rightarrow> bonus_args \<Rightarrow> real" where
  "bonus_score_of tx thought_lower b =
     (let bonus_score = 0;
          bonus_score =
            (if list_ex (\<lambda>(m1, m2). py_in m1 thought_lower \<and> py_in m2 thought_lower)
                  (given (bonus_structure_keywords b)) then 0.2 else bonus_score);
          bonus_score =
            (if list_ex (\<lambda>keyword. py_in keyword thought_lower) (given (bonus_causal_keywords b))
             then 0.1 else bonus_score);
          bonus_score =
            (if list_ex (\<lambda>q_word. py_in q_word thought_lower) (given (bonus_question_phrases b))
             then 0.15 else bonus_score);
          bonus_score =
            (if list_ex (\<lambda>keyword. py_in keyword thought_lower) (given (bonus_priority_keywords b))
             then 0.1 else bonus_score);
          bonus_score =
            (case bonus_people_refs b of
               None \<Rightarrow> bonus_score
             | Some (pronouns, people_refs) \<Rightarrow>
                 if list_ex (\<lambda>p_word. py_in p_word thought_lower) pronouns
                    \<and> list_ex (\<lambda>ref_word. py_in ref_word thought_lower) people_refs
                 then 0.1 else bonus_score);
          bonus_score =
            (if given (bonus_specific_examples_negators b) \<noteq> []
                \<and> \<not> list_ex isdigit tx
                \<and> \<not> list_ex (\<lambda>word. py_in word thought_lower)
                       (given (bonus_specific_examples_negators b))
             then 0.1 else bonus_score);
          bonus_score =
            (if list_ex (\<lambda>verb. py_in verb thought_lower) (given (bonus_action_verbs b))
             then 0.1 else bonus_score);
          bonus_score =
            (if list_ex (\<lambda>keyword. py_in keyword thought_lower) (given (bonus_keywords b))
             then (if str ''win-win'' \<in> set (given (bonus_keywords b))
                      \<or> str ''synergy'' \<in> set (given (bonus_keywords b)) then 0.15 else 0.1)
             else bonus_score);
          bonus_score =
            (if list_ex (\<lambda>conn. py_in conn thought_lower)
                  (given (bonus_logical_connectors_conclusion b)) then 0.1 else bonus_score)
      in bonus_score)"

text \<open>\<open>_analyze_specific_strategy\<close>.\<close>

definition analyze_specific_strategy :: "pystr \<Rightarrow> markers_data \<Rightarrow> bonus_args \<Rightarrow> real" where
  "analyze_specific_strategy tx markers_data b =
     (let thought_lower = lower tx;
          word_count = length (py_split tx)
      in if word_count = 0 then 0
         else let scores = category_scores thought_lower word_count markers_data;
                  bonus_score = bonus_score_of tx thought_lower b;
                  scores = (if bonus_score > 0 then scores @ [bonus_score] else scores)
              in if scores \<noteq> [] then sum_list scores / real (length scores) else 0)"

definition analyze_critical_thinking :: "language \<Rightarrow> pystr \<Rightarrow> real" where
  "analyze_critical_thinking lang tx =
     (let markers_data = CRITICAL_MARKERS lang
      in analyze_specific_strategy tx markers_data
           (no_bonus\<lparr>bonus_structure_keywords := get_pairs markers_data (str ''structure_keywords'')\<rparr>))"

definition analyze_systemic_thinking :: "language \<Rightarrow> pystr \<Rightarrow> real" where
  "analyze_systemic_thinking lang tx =
     (let markers_data = SYSTEMIC_MARKERS lang
      in analyze_specific_strategy tx markers_data
           (no_bonus\<lparr>bonus_causal_keywords := get_words markers_data (str ''causal_keywords'')\<rparr>))"

definition analyze_lateral_thinking :: "language \<Rightarrow> pystr \<Rightarrow> real" where
  "analyze_lateral_thinking lang tx =
     (let markers_data = LATERAL_MARKERS lang
      in analyze_specific_strategy tx markers_data
           (no_bonus\<lparr>bonus_question_phrases := get_words markers_data (str ''question_phrases'')\<rparr>))"

definition analyze_strategic_thinking :: "language \<Rightarrow> pystr \<Rightarrow> real" where
  "analyze_strategic_thinking lang tx =
     (let markers_data = STRATEGIC_MARKERS lang
      in analyze_specific_strategy tx markers_data
           (no_bonus\<lparr>bonus_priority_keywords := get_words markers_data (str ''priority_keywords'')\<rparr>))"

definition analyze_empathetic_thinking :: "language \<Rightarrow> pystr \<Rightarrow> real" where
  "analyze_empathetic_thinking lang tx =
     (let markers_data = EMPATHETIC_MARKERS lang
      in analyze_specific_strategy tx markers_data
           (no_bonus\<lparr>bonus_people_refs :=
              Some (given (get_words markers_data (str ''pronouns'')),
                    given (get_words markers_data (str ''people_refs'')))\<rparr>))"

definition analyze_abstract_thinking :: "language \<Rightarrow> pystr \<Rightarrow> real" where
  "analyze_abstract_thinking lang tx =
     (let markers_data = ABSTRACT_MARKERS lang
      in analyze_specific_strategy tx markers_data
           (no_bonus\<lparr>bonus_specific_examples_negators :=
              get_words markers_data (str ''specific_examples_negators'')\<rparr>))"

definition analyze_practical_thinking :: "language \<Rightarrow> pystr \<Rightarrow> real" where
  "analyze_practical_thinking lang tx =
     (let markers_data = PRACTICAL_MARKERS lang
      in analyze_specific_strategy tx markers_data
           (no_bonus\<lparr>bonus_action_verbs := get_words markers_data (str ''action_verbs'')\<rparr>))"

definition analyze_integrative_thinking :: "language \<Rightarrow> pystr \<Rightarrow> real" where
  "analyze_integrative_thinking lang tx =
     (let markers_data = INTEGRATIVE_MARKERS lang
      in analyze_specific_strategy tx markers_data
           (no_bonus\<lparr>bonus_keywords := get_words markers_data (str ''bonus_keywords'')\<rparr>))"

definition analyze_evolutionary_thinking :: "language \<Rightarrow> pystr \<Rightarrow> real" where
  "analyze_evolutionary_thinking lang tx =
     (let markers_data = EVOLUTIONARY_MARKERS lang
      in analyze_specific_strategy tx markers_data
           (no_bonus\<lparr>bonus_keywords := get_words markers_data (str ''bonus_keywords'')\<rparr>))"

definition analyze_convergent_thinking :: "language \<Rightarrow> pystr \<Rightarrow> real" where
  "analyze_convergent_thinking lang tx =
     (let markers_data = CONVERGENT_MARKERS lang
      in analyze_specific_strategy tx markers_data
           (no_bonus\<lparr>bonus_logical_connectors_conclusion :=
              get_words markers_data (str ''logical_connectors_leading_to_conclusion'')\<rparr>))"

definition analyze_divergent_thinking :: "language \<Rightarrow> pystr \<Rightarrow> real" where
  "analyze_divergent_thinking lang tx =
     (let markers_data = DIVERGENT_MARKERS lang
      in analyze_specific_strategy tx markers_data
           (no_bonus\<lparr>bonus_question_phrases := get_words markers_data (str ''question_phrases'')\<rparr>))"

definition analyze_reflective_thinking :: "language \<Rightarrow> pystr \<Rightarrow> real" where
  "analyze_reflective_thinking lang tx =
     (let markers_data = REFLECTIVE_MARKERS lang
      in analyze_specific_strategy tx markers_data
           (no_bonus\<lparr>bonus_keywords := get_words markers_data (str ''bonus_keywords'')\<rparr>))"

text \<open>
  Clarity and complexity: from the Flesch score when the libraries are there, from the
  word count when they are not or when the score raised.
\<close>

definition readability :: "analysis_libs option \<Rightarrow> pystr \<Rightarrow> ThoughtMetrics \<Rightarrow> ThoughtMetrics" where
  "readability libs tx m =
     (case libs of
        Some L \<Rightarrow>
          (case flesch_reading_ease L tx of
             Some flesch_score \<Rightarrow>
               let word_count = length (py_split tx);
                   sentence_count = length (filter (\<lambda>s. strip s \<noteq> []) (re_split_sentences tx));
                   avg_sentence_length = real word_count / real (max sentence_count 1)
               in m\<lparr>clarity_score := min 1 (max 0 (flesch_score / 100)),
                          complexity_score := min 1 (avg_sentence_length / 20)\<rparr>
           | None \<Rightarrow>
               let word_count = length (py_split tx)
               in m\<lparr>clarity_score := min 1 (max 0.1 (1 - (real word_count - 10) / 100)),
                          complexity_score := min 1 (real word_count / 50)\<rparr>)
      | None \<Rightarrow>
          let word_count = length (py_split tx)
          in m\<lparr>clarity_score := min 1 (max 0.1 (1 - \<bar>real word_count - 15\<bar> / 30)),
                     complexity_score := min 1 (real word_count / 50)\<rparr>)"

text \<open>The \<open>if\<close>/\<open>elif\<close> chain on the strat: one competency score is set, or none.\<close>

definition strategy_competency ::
  "language \<Rightarrow> pystr \<Rightarrow> ThinkingStrategy \<Rightarrow> ThoughtMetrics \<Rightarrow> ThoughtMetrics" where
  "strategy_competency lang tx strat m =
     (case strat of
        CRITICAL \<Rightarrow> m\<lparr>critical_thinking_score := analyze_critical_thinking lang tx\<rparr>
      | SYSTEMIC \<Rightarrow> m\<lparr>systemic_thinking_score := analyze_systemic_thinking lang tx\<rparr>
      | LATERAL \<Rightarrow> m\<lparr>lateral_thinking_score := analyze_lateral_thinking lang tx\<rparr>
      | STRATEGIC \<Rightarrow> m\<lparr>strategic_score := analyze_strategic_thinking lang tx\<rparr>
      | EMPATHETIC \<Rightarrow> m\<lparr>empathy_score := analyze_empathetic_thinking lang tx\<rparr>
      | ABSTRACT \<Rightarrow> m\<lparr>abstraction_score := analyze_abstract_thinking lang tx\<rparr>
      | PRACTICAL \<Rightarrow> m\<lparr>practicality_score := analyze_practical_thinking lang tx\<rparr>
      | INTEGRATIVE \<Rightarrow> m\<lparr>integration_score := analyze_integrative_thinking lang tx\<rparr>
      | EVOLUTIONARY \<Rightarrow> m\<lparr>evolution_score := analyze_evolutionary_thinking lang tx\<rparr>
      | CONVERGENT \<Rightarrow> m\<lparr>convergence_score := analyze_convergent_thinking lang tx\<rparr>
      | DIVERGENT \<Rightarrow> m\<lparr>divergence_score := analyze_divergent_thinking lang tx\<rparr>
      | REFLECTIVE \<Rightarrow> m\<lparr>reflection_score := analyze_reflective_thinking lang tx\<rparr>
      | _ \<Rightarrow> m)"

definition analyze_thought_quality ::
  "analysis_libs option \<Rightarrow> language \<Rightarrow> pystr \<Rightarrow> ThinkingStrategy \<Rightarrow> ThoughtMetrics" where
  "analyze_thought_quality libs lang tx strat =
     (let m = default_metrics
      in if strip tx = [] then m
         else
           let m = readability libs tx m;
               m = strategy_competency lang tx strat m;
               connector_count = count_if (\<lambda>conn. py_in conn (lower tx)) (LOGICAL_CONNECTORS lang);
               m = m\<lparr>logical_coherence := min 1 (real connector_count / 3)\<rparr>;
               evidence_count = count_if (\<lambda>pattern. re_search pattern (lower tx))
                                  (EVIDENCE_PATTERNS lang);
               m = m\<lparr>evidence_strength := min 1 (real evidence_count / 3)\<rparr>;
               unique_words = length (remdups (py_split (lower tx)));
               total_words = length (py_split tx);
               m = (if total_words > 0
                          then m\<lparr>novelty_score := min 1 (real unique_words / real total_words)\<rparr>
                          else m);
               uncertainty_count = count_if (\<lambda>marker. py_in marker (lower tx))
                                     (UNCERTAINTY_MARKERS lang);
               certainty_count = count_if (\<lambda>marker. py_in marker (lower tx))
                                   (CERTAINTY_MARKERS lang)
           in if certainty_count > uncertainty_count then m\<lparr>confidence_level := HIGH\<rparr>
              else if uncertainty_count > certainty_count then m\<lparr>confidence_level := LOW\<rparr>
              else m\<lparr>confidence_level := MEDIUM\<rparr>)"

section \<open>EnhancedThinkingProcessor\<close>

text \<open>
  The thought store and the session map are dictionaries; the session map is a
  \<open>defaultdict(list)\<close>, in which reading a missing key with \<open>[...]\<close> inserts an empty list.
  The quality analyzer and the validator carry the processor's language.
\<close>

record EnhancedThinkingProcessor =
  language :: language
  thoughts :: "pystr \<rightharpoonup> EnhancedThought"
  thought_sessions :: "pystr \<rightharpoonup> pystr list"
  current_session_id :: pystr
  strategy_history :: "(ThinkingStrategy \<times> real) list"
  global_thought_counter :: nat

definition new_processor :: "language \<Rightarrow> EnhancedThinkingProcessor" where
  "new_processor lang =
     \<lparr>language = lang, thoughts = Map.empty, thought_sessions = Map.empty,
      current_session_id = str ''default'', strategy_history = [],
      global_thought_counter = 0\<rparr>"

text \<open>\<open>str(n)\<close> of a counter: its decimal digits.\<close>

fun decimal :: "nat \<Rightarrow> pystr" where
  "decimal n = (if n < 10 then [48 + n] else decimal (n div 10) @ [48 + n mod 10])"

declare decimal.simps [simp del]

text \<open>\<open>strftime('%H%M%S')\<close>: two digits each for hour, minute and second.\<close>

definition two_digits :: "nat \<Rightarrow> pystr" where
  "two_digits n = [48 + n div 10 mod 10, 48 + n mod 10]"

definition strftime_HMS :: "datetime \<Rightarrow> pystr" where
  "strftime_HMS d = two_digits (hour d) @ two_digits (minute d) @ two_digits (second d)"

text \<open>The identifier \<open>f"thought_{counter}_{now:%H%M%S}"\<close>.\<close>

definition thought_id_format :: "nat \<Rightarrow> datetime \<Rightarrow> pystr" where
  "thought_id_format counter now =
     str ''thought_'' @ decimal counter @ str ''_'' @ strftime_HMS now"

definition generate_thought_id ::
  "EnhancedThinkingProcessor \<Rightarrow> datetime \<Rightarrow> pystr \<times> EnhancedThinkingProcessor" where
  "generate_thought_id p now =
     (let p' = p\<lparr>global_thought_counter := global_thought_counter p + 1\<rparr>
      in (thought_id_format (global_thought_counter p') now, p'))"

text \<open>An optional string in a condition: \<open>None\<close> and the empty string are false.\<close>

definition truthy :: "pystr option \<Rightarrow> bool" where
  "truthy x \<longleftrightarrow> (case x of None \<Rightarrow> False | Some s \<Rightarrow> s \<noteq> [])"

text \<open>\<open>_update_thought_relationships\<close>: the parent object in the store gets the new child.\<close>

definition update_thought_relationships ::
  "EnhancedThinkingProcessor \<Rightarrow> EnhancedThought \<Rightarrow> EnhancedThinkingProcessor" where
  "update_thought_relationships p th =
     (case parent_id th of
        None \<Rightarrow> p
      | Some pid \<Rightarrow>
          if pid \<noteq> [] then
            (case thoughts p pid of
               None \<Rightarrow> p
             | Some parent \<Rightarrow>
                 if thought_id th \<notin> set (children_ids parent)
                 then p\<lparr>thoughts := (thoughts p)(pid \<mapsto>
                          parent\<lparr>children_ids := children_ids parent @ [thought_id th]\<rparr>)\<rparr>
                 else p)
          else p)"

text \<open>
  \<open>create_thought\<close>. The two clock readings are the one that \<open>generate_thought_id\<close> takes
  and the one that the \<open>timestamp\<close> default takes; the result is the stored thought and the
  processor after the call.
\<close>

definition create_thought ::
  "analysis_libs option \<Rightarrow> EnhancedThinkingProcessor \<Rightarrow> EnhancedThinkingInput \<Rightarrow> datetime
     \<Rightarrow> datetime \<Rightarrow> EnhancedThought \<times> EnhancedThinkingProcessor" where
  "create_thought libs p input_data now stamp =
     (let (new_id, p) = generate_thought_id p now;
          th = \<lparr>thought_id = new_id,
                content = thought input_data,
                thought_type = thought_type_in input_data,
                strategy = strategy_in input_data,
                parent_id = parent_thought_id input_data,
                children_ids = [],
                branch_id = branch_id_in input_data,
                revision_of = revision_of_id input_data,
                timestamp = stamp,
                metrics = default_metrics,
                cognitive_biases = [],
                tags = tags_in input_data,
                supports = supports_thoughts input_data,
                contradicts = contradicts_thoughts input_data,
                builds_on = builds_on_thoughts input_data\<rparr>;
          th = (if request_analysis input_data then
                  let m = analyze_thought_quality libs (language p) (thought input_data)
                            (strategy_in input_data)
                  in th\<lparr>metrics := (case confidence input_data of
                                        None \<Rightarrow> m
                                      | Some c \<Rightarrow> m\<lparr>confidence_level := c\<rparr>)\<rparr>
                else th);
          th = (if request_validation input_data
                then th\<lparr>cognitive_biases :=
                          detect_cognitive_biases (language p) (thought input_data)\<rparr>
                else th);
          p = update_thought_relationships p th;
          p = p\<lparr>thoughts := (thoughts p)(new_id \<mapsto> th)\<rparr>;
          p = p\<lparr>thought_sessions := (thought_sessions p)(current_session_id p \<mapsto>
                 (case thought_sessions p (current_session_id p) of
                    None \<Rightarrow> [] | Some ids \<Rightarrow> ids) @ [new_id])\<rparr>
      in (th, p))"

text \<open>
  \<open>get_thinking_path\<close>. The \<open>while\<close> loop follows the parent links with no bound, so it is a
  partial function: \<open>None\<close> is the loop that never ends. \<open>path.insert(0, x)\<close> puts \<open>x\<close> in
  front.
\<close>

partial_function (option) walk_path ::
  "(pystr \<rightharpoonup> EnhancedThought) \<Rightarrow> EnhancedThought option \<Rightarrow> EnhancedThought list
     \<Rightarrow> EnhancedThought list option" where
  "walk_path store current_thought path =
     (case current_thought of
        None \<Rightarrow> Some path
      | Some ct \<Rightarrow>
          if truthy (parent_id ct)
          then walk_path store (store (the (parent_id ct))) (ct # path)
          else Some (ct # path))"

definition get_thinking_path ::
  "EnhancedThinkingProcessor \<Rightarrow> pystr \<Rightarrow> EnhancedThought list option" where
  "get_thinking_path p tid =
     (if thoughts p tid = None then Some []
      else walk_path (thoughts p) (thoughts p tid) [])"

text \<open>\<open>analyze_session_coherence\<close>: an error, the note for no thoughts, or the report.\<close>

record session_report =
  coherence_score :: real
  consistency_analysis :: consistency
  quality_trend :: real
  average_quality :: real
  thought_count :: nat
  cognitive_biases_detected :: nat

datatype coherence_result =
    SessionError message
  | NoThoughts real message
  | Coherence session_report

text \<open>\<open>[self.thoughts[tid] for tid in thought_ids if tid in self.thoughts]\<close>.\<close>

definition stored_thoughts ::
  "EnhancedThinkingProcessor \<Rightarrow> pystr list \<Rightarrow> EnhancedThought list" where
  "stored_thoughts p thought_ids = List.map_filter (thoughts p) thought_ids"

definition analyze_session_coherence ::
  "analysis_libs option \<Rightarrow> EnhancedThinkingProcessor \<Rightarrow> pystr option \<Rightarrow> coherence_result" where
  "analyze_session_coherence libs p session_id =
     (let session_id = (case session_id of None \<Rightarrow> current_session_id p | Some s \<Rightarrow> s)
      in case thought_sessions p session_id of
           None \<Rightarrow> SessionError (t_msg (str ''ERROR_SESSION_NOT_FOUND'') (language p))
         | Some thought_ids \<Rightarrow>
             let thoughts_content = map content (stored_thoughts p thought_ids)
             in if thoughts_content = []
                then NoThoughts 0 (t_msg (str ''ANALYSIS_NO_THOUGHTS'') (language p))
                else
                  let analysis = check_logical_consistency libs (language p) thoughts_content;
                      quality_scores =
                        map (\<lambda>th. (clarity_score (metrics th) + logical_coherence (metrics th)
                                    + evidence_strength (metrics th)) / 3)
                            (stored_thoughts p thought_ids);
                      trend = (if length quality_scores > 1
                               then last quality_scores - hd quality_scores else 0)
                  in Coherence
                       \<lparr>coherence_score =
                          1 - real (length (conflicts analysis))
                              / real (max (length thoughts_content) 1),
                        consistency_analysis = analysis,
                        quality_trend = trend,
                        average_quality =
                          (if quality_scores \<noteq> []
                           then sum_list quality_scores / real (length quality_scores) else 0),
                        thought_count = length thoughts_content,
                        cognitive_biases_detected =
                          sum_list (map (\<lambda>th. length (cognitive_biases th))
                                      (stored_thoughts p thought_ids))\<rparr>)"

subsection \<open>Strategy recommendation\<close>

text \<open>
  The context measures are computed in exact arithmetic. The code's floating-point results
  can differ from them in the last place, which matters only for a value that sits exactly
  on one of the thresholds 0.7, 0.6 and 0.5 of the recommendation branches.
\<close>

definition analyze_complexity :: "pystr \<Rightarrow> real" where
  "analyze_complexity tx =
     (if strip tx = [] then 0
      else
        let word_count = length (py_split tx);
            long_word_count = count_if (\<lambda>word. length word > 7) (py_split tx);
            sentence_count = length (re_split_sentences tx)
        in if sentence_count = 0 then 0
           else
             let c = (if word_count > 0
                      then (real long_word_count / real word_count)
                           * (real word_count / real sentence_count)
                      else 0)
             in min 1 (c / 5))"

definition analyze_ambiguity :: "language \<Rightarrow> pystr \<Rightarrow> real" where
  "analyze_ambiguity lang tx =
     (let count = count_if (\<lambda>marker. py_in marker (lower tx)) (AMBIGUITY_MARKERS lang);
          word_count = length (py_split tx)
      in min 1 (if word_count > 0 then real count / (real word_count * 0.1) else 0))"

definition analyze_emotional_tone :: "language \<Rightarrow> pystr \<Rightarrow> real" where
  "analyze_emotional_tone lang tx =
     (let text_lower = lower tx;
          positive_score = count_if (\<lambda>word. py_in word text_lower) (positive (EMOTIONAL_WORDS lang));
          negative_score = count_if (\<lambda>word. py_in word text_lower) (negative (EMOTIONAL_WORDS lang));
          total_score = positive_score + negative_score
      in if total_score = 0 then 0
         else \<bar>real positive_score - real negative_score\<bar> / real total_score)"

definition detect_domain :: "language \<Rightarrow> pystr \<Rightarrow> message" where
  "detect_domain lang tx =
     (case find (\<lambda>(name, keywords). list_ex (\<lambda>keyword. py_in keyword (lower tx)) keywords)
             (DOMAIN_KEYWORDS lang) of
        Some (name, keywords) \<Rightarrow> t_msg (str ''TEXT_DOMAIN_'' @ upper name) lang
      | None \<Rightarrow> t_msg (str ''TEXT_DOMAIN_GENERAL'') lang)"

text \<open>\<open>_analyze_strategy_history\<close>: \<open>self.strategy_history[-5:]\<close>.\<close>

definition analyze_strategy_history ::
  "EnhancedThinkingProcessor \<Rightarrow> (ThinkingStrategy \<times> real) list" where
  "analyze_strategy_history p = last_n 5 (strategy_history p)"

record context_analysis =
  complexity :: real
  ambiguity :: real
  emotional_tone :: real
  domain_label :: message

record strategy_suggestions =
  context_analysis_of :: context_analysis
  current_effectiveness :: real
  suggested_strategies :: "(ThinkingStrategy \<times> message) list"
  reasoning :: message

text \<open>
  The start of \<open>suggest_next_thinking_strategy\<close>: the pair is appended and, over 20
  entries, the oldest is dropped (\<open>pop(0)\<close>).
\<close>

definition record_strategy ::
  "EnhancedThinkingProcessor \<Rightarrow> ThinkingStrategy \<Rightarrow> real \<Rightarrow> EnhancedThinkingProcessor" where
  "record_strategy p current_strategy effectiveness =
     (let h = strategy_history p @ [(current_strategy, effectiveness)]
      in p\<lparr>strategy_history := (if length h > 20 then tl h else h)\<rparr>)"

text \<open>The fourth recommendation branch: up to two strategies that were effective before.\<close>

definition previously_effective ::
  "language \<Rightarrow> (ThinkingStrategy \<times> real) list \<Rightarrow> (ThinkingStrategy \<times> message) list" where
  "previously_effective lang analyzed_strategy_history =
     (let successful_strategies =
            map fst (filter (\<lambda>(strat, eff). eff > 0.7) analyzed_strategy_history)
      in map (\<lambda>strat. (strat, t_msg (str ''STRATEGY_EFFECTIVE_PREVIOUSLY_REASON'') lang))
           (take 2 successful_strategies))"

definition suggest_next_thinking_strategy ::
  "EnhancedThinkingProcessor \<Rightarrow> pystr \<Rightarrow> real \<Rightarrow> ThinkingStrategy
     \<Rightarrow> strategy_suggestions \<times> EnhancedThinkingProcessor" where
  "suggest_next_thinking_strategy p ctx effectiveness current_strategy =
     (let p = record_strategy p current_strategy effectiveness;
          lang = language p;
          ca = \<lparr>complexity = analyze_complexity ctx,
                ambiguity = analyze_ambiguity lang ctx,
                emotional_tone = analyze_emotional_tone lang ctx,
                domain_label = detect_domain lang ctx\<rparr>;
          analyzed_strategy_history = analyze_strategy_history p;
          recs = [];
          recs = (if complexity ca > 0.7
                  then recs @ [(SYSTEMIC, t_msg (str ''HIGH_COMPLEXITY_REASON'') lang),
                               (ANALYTICAL, t_msg (str ''DETAILED_ANALYSIS_NEEDED_REASON'') lang)]
                  else recs);
          recs = (if ambiguity ca > 0.6
                  then recs @ [(CRITICAL, t_msg (str ''AMBIGUITY_CRITICAL_ANALYSIS_REASON'') lang),
                               (DIALECTICAL, t_msg (str ''OPPOSING_VIEWPOINTS_REASON'') lang)]
                  else recs);
          recs = (if emotional_tone ca > 0.5
                  then recs @ [(EMPATHETIC, t_msg (str ''EMOTIONAL_CONTEXT_EMPATHETIC_REASON'') lang),
                               (REFLECTIVE, t_msg (str ''REFLECTION_NEEDED_REASON'') lang)]
                  else recs);
          recs = recs @ previously_effective lang analyzed_strategy_history;
          recs = (if recs = [] then
                    (if effectiveness < 0.5
                     then [(TREE, t_msg (str ''EXPLORE_ALTERNATIVES_REASON'') lang),
                           (DIALECTICAL, t_msg (str ''OPPOSING_VIEWPOINTS_REASON'') lang),
                           (METACOGNITIVE, t_msg (str ''ANALYZE_APPROACH_REASON'') lang)]
                     else if effectiveness < 0.7
                     then [(SYSTEMATIC, t_msg (str ''USE_SYSTEMATIC_ANALYSIS_REASON'') lang),
                           (ANALYTICAL, t_msg (str ''APPLY_STRICT_LOGIC_REASON'') lang)]
                     else [(CREATIVE, t_msg (str ''TRY_CREATIVE_APPROACH_REASON'') lang),
                           (DIVERGENT, t_msg (str ''GENERATE_MORE_ALTERNATIVES_REASON'') lang)])
                  else recs)
      in (\<lparr>context_analysis_of = ca,
           current_effectiveness = effectiveness,
           suggested_strategies = recs,
           reasoning = t_msg (str ''RECOMMENDATION_REASONING_SUFFIX'') lang\<rparr>, p))"

subsection \<open>Metacognitive analysis\<close>

text \<open>
  \<open>d[key] += 1\<close> on a \<open>defaultdict(int)\<close>, kept in insertion order, and
  \<open>max(d.items(), key=lambda x: x[1])[0]\<close>, which takes the first entry of the largest count.
\<close>

fun count_into :: "'a \<Rightarrow> ('a \<times> nat) list \<Rightarrow> ('a \<times> nat) list" where
  "count_into k [] = [(k, 1)]"
| "count_into k ((k', n) # d) = (if k = k' then (k', n + 1) # d else (k', n) # count_into k d)"

definition distribution :: "'a list \<Rightarrow> ('a \<times> nat) list" where
  "distribution xs = foldl (\<lambda>d x. count_into x d) [] xs"

definition dominant :: "('a \<times> nat) list \<Rightarrow> 'a option" where
  "dominant d =
     (case d of
        [] \<Rightarrow> None
      | x # xs \<Rightarrow> Some (fst (foldl (\<lambda>best y. if snd y > snd best then y else best) x xs)))"

record thinking_patterns =
  thought_type_distribution :: "(ThoughtType \<times> nat) list"
  strategy_distribution :: "(ThinkingStrategy \<times> nat) list"
  dominant_type :: "ThoughtType option"
  dominant_strategy :: "ThinkingStrategy option"

text \<open>\<open>_analyze_thinking_patterns\<close>; \<open>None\<close> is the empty dictionary returned for no thoughts.\<close>

definition analyze_thinking_patterns :: "EnhancedThought list \<Rightarrow> thinking_patterns option" where
  "analyze_thinking_patterns ths =
     (if ths = [] then None
      else
        let type_distribution = distribution (map thought_type ths);
            strat_distribution = distribution (map strategy ths)
        in Some \<lparr>thought_type_distribution = type_distribution,
                 strategy_distribution = strat_distribution,
                 dominant_type = dominant type_distribution,
                 dominant_strategy = dominant strat_distribution\<rparr>)"

definition evaluate_strategy_effectiveness :: "EnhancedThought list \<Rightarrow> real" where
  "evaluate_strategy_effectiveness ths =
     (if ths = [] then 0
      else
        let total_quality =
              sum_list (map (\<lambda>th. (clarity_score (metrics th) + logical_coherence (metrics th)
                                   + evidence_strength (metrics th) + novelty_score (metrics th)) / 4)
                          ths)
        in total_quality / real (length ths))"

definition assess_cognitive_load :: "EnhancedThought list \<Rightarrow> real" where
  "assess_cognitive_load ths =
     (if ths = [] then 0
      else
        let total_complexity = sum_list (map (\<lambda>th. complexity_score (metrics th)) ths);
            avg_complexity = total_complexity / real (length ths);
            connection_complexity =
              sum_list (map (\<lambda>th. real (length (supports th) + length (contradicts th)
                                          + length (builds_on th)) / 10) ths);
            avg_connection_complexity = connection_complexity / real (length ths)
        in min 1 ((avg_complexity + avg_connection_complexity) / 2))"

text \<open>
  \<open>list(set(all_biases))\<close> has no fixed order, so the detected biases are kept as a set.
\<close>

record bias_assessment =
  total_biases :: nat
  unique_biases :: nat
  detected_biases :: "pystr set"
  bias_distribution :: "(pystr \<times> nat) list"
  bias_density :: real

definition assess_cognitive_biases :: "EnhancedThought list \<Rightarrow> bias_assessment" where
  "assess_cognitive_biases ths =
     (let all_biases = concat (map cognitive_biases ths)
      in \<lparr>total_biases = length all_biases,
          unique_biases = length (remdups all_biases),
          detected_biases = set all_biases,
          bias_distribution = distribution all_biases,
          bias_density = (if ths \<noteq> [] then real (length all_biases) / real (length ths) else 0)\<rparr>)"

record metacognitive_analysis =
  focus_area :: pystr
  thinking_patterns_of :: "thinking_patterns option"
  strategy_effectiveness :: real
  cognitive_load :: real
  bias_assessment_of :: bias_assessment
  recommendations :: "message list"

datatype metacognitive_result =
    NoThoughtsToAnalyze message "message list"
  | Analysis metacognitive_analysis

text \<open>
  Reading \<open>self.thought_sessions[self.current_session_id]\<close> inserts an empty list for a
  session that has no entry yet.
\<close>

definition touch_current_session :: "EnhancedThinkingProcessor \<Rightarrow> EnhancedThinkingProcessor" where
  "touch_current_session p =
     (case thought_sessions p (current_session_id p) of
        None \<Rightarrow> p\<lparr>thought_sessions := (thought_sessions p)(current_session_id p \<mapsto> [])\<rparr>
      | Some ids \<Rightarrow> p)"

definition perform_metacognitive_analysis ::
  "EnhancedThinkingProcessor \<Rightarrow> pystr \<Rightarrow> int
     \<Rightarrow> metacognitive_result \<times> EnhancedThinkingProcessor" where
  "perform_metacognitive_analysis p focus depth =
     (let p = touch_current_session p;
          session_thoughts =
            stored_thoughts p (case thought_sessions p (current_session_id p) of
                                 None \<Rightarrow> [] | Some ids \<Rightarrow> ids)
      in if session_thoughts = []
         then (NoThoughtsToAnalyze (t_msg (str ''ANALYSIS_NO_THOUGHTS'') (language p)) [], p)
         else
           let load = assess_cognitive_load session_thoughts;
               biases = assess_cognitive_biases session_thoughts;
               effectiveness = evaluate_strategy_effectiveness session_thoughts;
               recs = [];
               recs = (if load > 0.7
                       then recs @ [t_msg (str ''RECOMMENDATION_BREAK_DOWN_TASK'') (language p)]
                       else recs);
               recs = (if card (detected_biases biases) > 3
                       then recs @ [t_msg (str ''RECOMMENDATION_BIASES_ATTENTION'') (language p)]
                       else recs);
               recs = (if effectiveness < 0.5
                       then recs @ [t_msg (str ''RECOMMENDATION_STRATEGY_INEFFECTIVE'') (language p)]
                       else recs)
           in (Analysis
                 \<lparr>focus_area = focus,
                  thinking_patterns_of = analyze_thinking_patterns session_thoughts,
                  strategy_effectiveness = effectiveness,
                  cognitive_load = load,
                  bias_assessment_of = biases,
                  recommendations = recs\<rparr>, p))"

section \<open>EnhancedThinkingServer\<close>

text \<open>
  The server holds the processor, its own language, the output formatter's language and
  the flag of a finished initialization. Console rendering is output only and is left out.
\<close>

record EnhancedThinkingServer =
  server_language :: language
  initialized :: bool
  thinking_processor :: EnhancedThinkingProcessor
  formatter_language :: language

definition new_server :: "language \<Rightarrow> EnhancedThinkingServer" where
  "new_server lang =
     \<lparr>server_language = lang, initialized = False,
      thinking_processor = new_processor lang, formatter_language = lang\<rparr>"

text \<open>
  \<open>ensure_initialized\<close>: nothing to do on an initialized server; otherwise the call waits
  up to ten seconds for the initialization event. \<open>event_set\<close> tells whether the event
  came in time; if not, the call raises \<open>RuntimeError\<close> with the message returned here.
\<close>

definition ensure_initialized :: "EnhancedThinkingServer \<Rightarrow> bool \<Rightarrow> message option" where
  "ensure_initialized srv event_set =
     (if initialized srv then None
      else if event_set then None
      else Some (t_msg (str ''ERROR_INIT_TIMEOUT'') (server_language srv)))"

text \<open>The keys of \<open>TRANSLATIONS\<close>.\<close>

definition language_of_code :: "pystr \<Rightarrow> language option" where
  "language_of_code code =
     (if code = str ''en'' then Some EN else if code = str ''ru'' then Some RU else None)"

text \<open>
  The tool \<open>enhanced_thinking\<close>. Both \<open>except\<close> clauses answer with the same payload,
  \<open>{"input": {"error": message, "status": "failed"}}\<close>, which is \<open>Inl message\<close> here; a
  success answers with the fields of the created thought, \<open>Inr\<close> of it. The \<open>finally\<close>
  clause restores the formatter's language on every path.
\<close>

definition enhanced_thinking ::
  "analysis_libs option \<Rightarrow> EnhancedThinkingServer \<Rightarrow> bool \<Rightarrow> EnhancedThinkingInput
     \<Rightarrow> datetime \<Rightarrow> datetime \<Rightarrow> (message + EnhancedThought) \<times> EnhancedThinkingServer" where
  "enhanced_thinking libs srv event_set inp now stamp =
     (let original_formatter_language = formatter_language srv
      in case ensure_initialized srv event_set of
           Some err \<Rightarrow> (Inl err, srv\<lparr>formatter_language := original_formatter_language\<rparr>)
         | None \<Rightarrow>
             if thought inp = [] \<or> length (strip (thought inp)) = 0
             then (Inl (t_msg (str ''ERROR_EMPTY_THOUGHT_CONTENT'') (server_language srv)),
                   srv\<lparr>formatter_language := original_formatter_language\<rparr>)
             else
               let current_response_language =
                     (case response_language inp of
                        None \<Rightarrow> server_language srv
                      | Some code \<Rightarrow>
                          (case language_of_code code of
                             None \<Rightarrow> server_language srv | Some l \<Rightarrow> l));
                   srv = srv\<lparr>formatter_language := current_response_language\<rparr>;
                   (th, p) = create_thought libs (thinking_processor srv) inp now stamp;
                   srv = srv\<lparr>thinking_processor := p\<rparr>
               in if thought_id th = []
                  then (Inl (t_msg (str ''ERROR_FAILED_TO_CREATE_THOUGHT'') (server_language srv)),
                        srv\<lparr>formatter_language := original_formatter_language\<rparr>)
                  else (Inr th, srv\<lparr>formatter_language := original_formatter_language\<rparr>))"

text \<open>
  The tool \<open>export_thinking_session\<close>. The structured form lists these fields of every
  thought of the session.
\<close>

record exported_thought =
  export_id :: pystr
  export_content :: pystr
  export_type :: ThoughtType
  export_strategy :: ThinkingStrategy
  export_time :: datetime
  export_metrics :: ThoughtMetrics
  export_biases :: "pystr list"
  export_parent :: "pystr option"
  export_children :: "pystr list"
  export_supports :: "pystr list"
  export_contradicts :: "pystr list"
  export_tags :: "pystr list"

record json_export =
  export_session_id :: pystr
  export_timestamp :: datetime
  export_thought_count :: nat
  export_thoughts :: "exported_thought list"

record session_summary =
  summary_session_id :: pystr
  total_thoughts :: nat
  summary_coherence_score :: real
  summary_quality_trend :: real
  summary_average_quality :: real
  summary_biases_detected :: nat
  key_insights :: "message list"

text \<open>
  The answers: \<open>{"error": message}\<close> for an unknown session and for an unsupported format,
  the structured export, the Markdown text (kept as the session id, the clock reading and
  the thoughts it renders), the summary (its insights are the processed-thoughts line,
  the quality trend wording and the detected-biases line), and the failure payload of the
  \<open>except\<close> clause.
\<close>

datatype export_result =
    ExportError message
  | JsonExport json_export
  | MarkdownExport pystr datetime "EnhancedThought list"
  | SummaryExport session_summary
  | ExportFailed message

definition export_thought :: "EnhancedThought \<Rightarrow> exported_thought" where
  "export_thought th =
     \<lparr>export_id = thought_id th, export_content = content th, export_type = thought_type th,
      export_strategy = strategy th, export_time = timestamp th, export_metrics = metrics th,
      export_biases = cognitive_biases th, export_parent = parent_id th,
      export_children = children_ids th, export_supports = supports th,
      export_contradicts = contradicts th, export_tags = tags th\<rparr>"

definition export_thinking_session ::
  "analysis_libs option \<Rightarrow> EnhancedThinkingServer \<Rightarrow> bool \<Rightarrow> pystr option \<Rightarrow> pystr
     \<Rightarrow> datetime \<Rightarrow> export_result \<times> EnhancedThinkingServer" where
  "export_thinking_session libs srv event_set session_id format_type now =
     (let original_formatter_language = formatter_language srv;
          p = thinking_processor srv;
          lang = server_language srv
      in case ensure_initialized srv event_set of
           Some err \<Rightarrow> (ExportFailed err, srv\<lparr>formatter_language := original_formatter_language\<rparr>)
         | None \<Rightarrow>
             let session_id = (case session_id of None \<Rightarrow> current_session_id p | Some s \<Rightarrow> s);
                 result =
                   (case thought_sessions p session_id of
                      None \<Rightarrow> ExportError (t_msg (str ''ERROR_SESSION_NOT_FOUND'') lang)
                    | Some thought_ids \<Rightarrow>
                        let ths = stored_thoughts p thought_ids
                        in if format_type = str ''json''
                           then JsonExport
                                  \<lparr>export_session_id = session_id, export_timestamp = now,
                                   export_thought_count = length ths,
                                   export_thoughts = map export_thought ths\<rparr>
                           else if format_type = str ''markdown''
                           then MarkdownExport session_id now ths
                           else if format_type = str ''summary''
                           then
                             (let session_analysis = analyze_session_coherence libs p (Some session_id);
                                  coherence = (case session_analysis of
                                                 Coherence r \<Rightarrow> coherence_score r
                                               | NoThoughts c note \<Rightarrow> c
                                               | SessionError e \<Rightarrow> 0);
                                  quality_trend_val = (case session_analysis of
                                                         Coherence r \<Rightarrow> quality_trend r | _ \<Rightarrow> 0);
                                  average = (case session_analysis of
                                               Coherence r \<Rightarrow> average_quality r | _ \<Rightarrow> 0);
                                  biases = (case session_analysis of
                                              Coherence r \<Rightarrow> cognitive_biases_detected r | _ \<Rightarrow> 0);
                                  quality_trend_text =
                                    (if quality_trend_val > 0
                                     then t_msg (str ''QUALITY_TREND_IMPROVING'') lang
                                     else if quality_trend_val < 0
                                     then t_msg (str ''QUALITY_TREND_DECLINING'') lang
                                     else t_msg (str ''QUALITY_TREND_STABLE'') lang)
                              in SummaryExport
                                   \<lparr>summary_session_id = session_id,
                                    total_thoughts = length ths,
                                    summary_coherence_score = coherence,
                                    summary_quality_trend = quality_trend_val,
                                    summary_average_quality = average,
                                    summary_biases_detected = biases,
                                    key_insights =
                                      [t_msg (str ''SUMMARY_PROCESSED_THOUGHTS'') lang,
                                       quality_trend_text,
                                       t_msg (str ''SUMMARY_DETECTED_BIASES'') lang]\<rparr>)
                           else ExportError (t_msg (str ''EXPORT_UNSUPPORTED_FORMAT'') lang))
             in (result, srv\<lparr>formatter_language := original_formatter_language\<rparr>))"

section \<open>Properties: vocabulary\<close>

definition unit_interval :: "real \<Rightarrow> bool" where
  "unit_interval x \<longleftrightarrow> 0 \<le> x \<and> x \<le> 1"

definition metrics_in_unit_interval :: "ThoughtMetrics \<Rightarrow> bool" where
  "metrics_in_unit_interval m \<longleftrightarrow>
     unit_interval (clarity_score m) \<and> unit_interval (logical_coherence m)
     \<and> unit_interval (evidence_strength m) \<and> unit_interval (novelty_score m)
     \<and> unit_interval (complexity_score m) \<and> unit_interval (critical_thinking_score m)
     \<and> unit_interval (systemic_thinking_score m) \<and> unit_interval (lateral_thinking_score m)
     \<and> unit_interval (strategic_score m) \<and> unit_interval (empathy_score m)
     \<and> unit_interval (abstraction_score m) \<and> unit_interval (practicality_score m)
     \<and> unit_interval (integration_score m) \<and> unit_interval (evolution_score m)
     \<and> unit_interval (convergence_score m) \<and> unit_interval (divergence_score m)
     \<and> unit_interval (reflection_score m)"

text \<open>
  \<open>EnhancedThinkingInput(thought=...)\<close> with every other field at its declared default, and
  a clock reading, for the examples.
\<close>

definition default_input :: "pystr \<Rightarrow> EnhancedThinkingInput" where
  "default_input tx =
     \<lparr>thought = tx, thought_type_in = ANALYSIS, strategy_in = LINEAR,
      parent_thought_id = None, revision_of_id = None, branch_id_in = None,
      supports_thoughts = [], contradicts_thoughts = [], builds_on_thoughts = [],
      tags_in = [], confidence = None, response_language = None,
      request_analysis = True, request_validation = True\<rparr>"

definition noon :: datetime where
  "noon = \<lparr>year = 2025, month = 6, day = 1, hour = 12, minute = 0, second = 0,
           microsecond = 0\<rparr>"

text \<open>A sequence of \<open>adapt_strategy\<close> requests, each (context, effectiveness, strategy).\<close>

definition adapt_calls ::
  "EnhancedThinkingProcessor \<Rightarrow> (pystr \<times> real \<times> ThinkingStrategy) list
     \<Rightarrow> EnhancedThinkingProcessor" where
  "adapt_calls p calls =
     foldl (\<lambda>q (ctx, eff, s). snd (suggest_next_thinking_strategy q ctx eff s)) p calls"

text \<open>
  The invariant of the thought store: every key is an identifier issued under a counter
  value that is not above the current one, and every children list is duplicate-free and
  names stored thoughts only. The numeric value of a digit string serves to tell
  identifiers of different counters apart.
\<close>

definition digits_value :: "pystr \<Rightarrow> nat" where
  "digits_value ds = foldl (\<lambda>a c. 10 * a + (c - 48)) 0 ds"

definition store_inv :: "EnhancedThinkingProcessor \<Rightarrow> bool" where
  "store_inv p \<longleftrightarrow>
     (\<forall>k th. thoughts p k = Some th \<longrightarrow>
        (\<exists>n tm. k = thought_id_format n tm \<and> n \<le> global_thought_counter p)
        \<and> set (children_ids th) \<subseteq> dom (thoughts p)
        \<and> distinct (children_ids th))"

text \<open>
  The parent chain of a stored thought: \<open>parent_chain store k ks\<close> holds when following the
  parent links from the key \<open>k\<close> visits the keys \<open>ks\<close> and ends, at a thought with no parent
  or with a parent that is not stored.
\<close>

inductive parent_chain :: "(pystr \<rightharpoonup> EnhancedThought) \<Rightarrow> pystr \<Rightarrow> pystr list \<Rightarrow> bool"
  for store :: "pystr \<rightharpoonup> EnhancedThought" where
  chain_root: "store k = Some ct \<Longrightarrow> \<not> truthy (parent_id ct) \<Longrightarrow> parent_chain store k [k]"
| chain_orphan: "store k = Some ct \<Longrightarrow> truthy (parent_id ct) \<Longrightarrow> store (the (parent_id ct)) = None
     \<Longrightarrow> parent_chain store k [k]"
| chain_step: "store k = Some ct \<Longrightarrow> truthy (parent_id ct) \<Longrightarrow> parent_chain store (the (parent_id ct)) ks
     \<Longrightarrow> parent_chain store k (k # ks)"

text \<open>
  The example scenario: thought A is created on a fresh English processor, then thought B
  as a child of A that contradicts A.
\<close>

definition example_A :: "EnhancedThought \<times> EnhancedThinkingProcessor" where
  "example_A =
     create_thought None (new_processor EN)
       ((default_input
           (str ''The data clearly shows 95% improvement, therefore we should proceed.''))
        \<lparr>thought_type_in := ANALYSIS, strategy_in := CRITICAL\<rparr>)
       noon noon"

definition example_B :: "EnhancedThought \<times> EnhancedThinkingProcessor" where
  "example_B =
     create_thought None (snd example_A)
       ((default_input (str ''Possibly this result is not reproducible.''))
        \<lparr>parent_thought_id := Some (thought_id (fst example_A)),
         contradicts_thoughts := [thought_id (fst example_A)]\<rparr>)
       noon noon"

section \<open>Quality metrics stay in the unit interval\<close>

lemma sum_list_unit_bounds:
  fixes xs :: "real list"
  assumes "\<And>x. x \<in> set xs \<Longrightarrow> 0 \<le> x \<and> x \<le> 1"
  shows "0 \<le> sum_list xs \<and> sum_list xs \<le> real (length xs)"
  using assms
proof (induction xs)
  case Nil
  show ?case by simp
next
  case (Cons a as)
  have a: "0 \<le> a \<and> a \<le> 1" using Cons.prems by simp
  have "0 \<le> sum_list as \<and> sum_list as \<le> real (length as)"
    using Cons.IH Cons.prems by simp
  with a show ?case by simp
qed

lemma mean_unit:
  fixes xs :: "real list"
  assumes "\<And>x. x \<in> set xs \<Longrightarrow> 0 \<le> x \<and> x \<le> 1" and "xs \<noteq> []"
  shows "unit_interval (sum_list xs / real (length xs))"
proof -
  have b: "0 \<le> sum_list xs \<and> sum_list xs \<le> real (length xs)"
    using assms(1) by (rule sum_list_unit_bounds)
  have pos: "0 < real (length xs)" using assms(2) by simp
  from b pos show ?thesis
    by (simp add: unit_interval_def divide_le_eq_1)
qed

lemma category_scores_unit:
  assumes "x \<in> set (category_scores tlow wc md)"
  shows "0 \<le> x \<and> x \<le> 1"
  using assms by (auto simp: category_scores_def Let_def)

lemma bonus_score_of_unit: "0 \<le> bonus_score_of tx tlow b \<and> bonus_score_of tx tlow b \<le> 1"
  by (simp add: bonus_score_of_def Let_def split: option.split prod.split)

lemma analyze_specific_strategy_unit: "unit_interval (analyze_specific_strategy tx md b)"
proof -
  let ?wc = "length (py_split tx)"
  let ?cs = "category_scores (lower tx) ?wc md"
  let ?b = "bonus_score_of tx (lower tx) b"
  let ?scores = "if ?b > 0 then ?cs @ [?b] else ?cs"
  have in_unit: "\<And>x. x \<in> set ?scores \<Longrightarrow> 0 \<le> x \<and> x \<le> 1"
    using category_scores_unit [of _ "lower tx" "length (py_split tx)" md] bonus_score_of_unit [of tx "lower tx" b]
    by (auto split: if_splits)
  have eq: "analyze_specific_strategy tx md b =
      (if ?wc = 0 then 0 else if ?scores \<noteq> [] then sum_list ?scores / real (length ?scores) else 0)"
    by (simp add: analyze_specific_strategy_def Let_def)
  show ?thesis
  proof (cases "?wc = 0 \<or> ?scores = []")
    case True
    then show ?thesis unfolding eq by (auto simp: unit_interval_def)
  next
    case False
    then have ne: "?scores \<noteq> []" by blast
    have "unit_interval (sum_list ?scores / real (length ?scores))"
      using in_unit ne by (rule mean_unit)
    with False show ?thesis unfolding eq by auto
  qed
qed

lemma strategy_scores_unit:
  "unit_interval (analyze_critical_thinking lang tx)"
  "unit_interval (analyze_systemic_thinking lang tx)"
  "unit_interval (analyze_lateral_thinking lang tx)"
  "unit_interval (analyze_strategic_thinking lang tx)"
  "unit_interval (analyze_empathetic_thinking lang tx)"
  "unit_interval (analyze_abstract_thinking lang tx)"
  "unit_interval (analyze_practical_thinking lang tx)"
  "unit_interval (analyze_integrative_thinking lang tx)"
  "unit_interval (analyze_evolutionary_thinking lang tx)"
  "unit_interval (analyze_convergent_thinking lang tx)"
  "unit_interval (analyze_divergent_thinking lang tx)"
  "unit_interval (analyze_reflective_thinking lang tx)"
  by (simp_all add: analyze_critical_thinking_def analyze_systemic_thinking_def
      analyze_lateral_thinking_def analyze_strategic_thinking_def analyze_empathetic_thinking_def
      analyze_abstract_thinking_def analyze_practical_thinking_def
      analyze_integrative_thinking_def analyze_evolutionary_thinking_def
      analyze_convergent_thinking_def analyze_divergent_thinking_def
      analyze_reflective_thinking_def Let_def analyze_specific_strategy_unit)

lemma default_metrics_unit: "metrics_in_unit_interval default_metrics"
  by (simp add: metrics_in_unit_interval_def default_metrics_def unit_interval_def)

lemma readability_unit:
  assumes "metrics_in_unit_interval m"
  shows "metrics_in_unit_interval (readability libs tx m)"
  using assms
  by (simp add: readability_def metrics_in_unit_interval_def unit_interval_def Let_def
      le_max_iff_disj split: option.split)

lemma strategy_competency_unit:
  assumes "metrics_in_unit_interval m"
  shows "metrics_in_unit_interval (strategy_competency lang tx strat m)"
  using assms strategy_scores_unit [of lang tx]
  by (cases strat) (simp_all add: strategy_competency_def metrics_in_unit_interval_def)

lemma analyze_thought_quality_unit:
  "metrics_in_unit_interval (analyze_thought_quality libs lang tx strat)"
proof (cases "strip tx = []")
  case True
  then show ?thesis by (simp add: analyze_thought_quality_def default_metrics_unit)
next
  case False
  have m2: "metrics_in_unit_interval
      (strategy_competency lang tx strat (readability libs tx default_metrics))"
    by (intro strategy_competency_unit readability_unit default_metrics_unit)
  from False m2 show ?thesis
    by (simp add: analyze_thought_quality_def Let_def metrics_in_unit_interval_def
        unit_interval_def)
qed

lemma analyze_thought_quality_confidence:
  "confidence_level (analyze_thought_quality libs lang tx strat) \<in> {LOW, MEDIUM, HIGH}"
  by (simp add: analyze_thought_quality_def Let_def default_metrics_def)

text \<open>
  C1. For every thought tx that is not blank, every language, every strategy and either
  state of the optional libraries, each float field of the metrics that
  \<open>analyze_thought_quality\<close> returns (clarity, logical coherence, evidence strength,
  novelty, complexity and the twelve strategy competency scores) lies in [0, 1], and the
  confidence level is one of the five ordinal values (in fact LOW, MEDIUM or HIGH).
\<close>

theorem C1_metrics_in_unit_interval:
  assumes "strip tx \<noteq> []"
  shows "metrics_in_unit_interval (analyze_thought_quality libs lang tx strat)
     \<and> confidence_level (analyze_thought_quality libs lang tx strat)
         \<in> {VERY_LOW, LOW, MEDIUM, HIGH, VERY_HIGH}
     \<and> confidence_level (analyze_thought_quality libs lang tx strat) \<in> {LOW, MEDIUM, HIGH}"
  using analyze_thought_quality_unit [of libs lang tx strat]
    analyze_thought_quality_confidence [of libs lang tx strat]
  by auto

theorem C1_metrics_in_unit_interval_witness:
  "strip (str ''if a then b'') \<noteq> []
   \<and> metrics_in_unit_interval (analyze_thought_quality None EN (str ''if a then b'') CRITICAL)
   \<and> confidence_level (analyze_thought_quality None EN (str ''if a then b'') CRITICAL)
        \<in> {LOW, MEDIUM, HIGH}"
proof -
  have ne: "strip (str ''if a then b'') \<noteq> []"
    by (simp add: strip_def str_def isspace_def)
  from ne C1_metrics_in_unit_interval [OF ne, of None EN CRITICAL] show ?thesis by blast
qed

section \<open>Bias detection\<close>

text \<open>
  C6. A catalogue bias is reported if and only if at least two of its markers occur in the
  lowercased thought and at least one of its contextual cues occurs; so a thought in which
  no catalogue marker occurs has no detected bias.
\<close>

theorem C6_bias_detection:
  "(name \<in> set (detect_cognitive_biases lang tx) \<longleftrightarrow>
      (\<exists>d. (name, d) \<in> set (COGNITIVE_BIAS_MARKERS lang)
         \<and> 2 \<le> count_if (\<lambda>marker. py_in marker (lower tx)) (bias_markers d)
         \<and> list_ex (\<lambda>c. py_in c (lower tx)) (bias_context d)))
   \<and> ((\<forall>(n, d) \<in> set (COGNITIVE_BIAS_MARKERS lang).
          \<forall>marker \<in> set (bias_markers d). \<not> py_in marker (lower tx))
        \<longrightarrow> detect_cognitive_biases lang tx = [])"
proof
  show "name \<in> set (detect_cognitive_biases lang tx) \<longleftrightarrow>
      (\<exists>d. (name, d) \<in> set (COGNITIVE_BIAS_MARKERS lang)
         \<and> 2 \<le> count_if (\<lambda>marker. py_in marker (lower tx)) (bias_markers d)
         \<and> list_ex (\<lambda>c. py_in c (lower tx)) (bias_context d))"
    by (force simp: detect_cognitive_biases_def Let_def)
next
  show "(\<forall>(n, d) \<in> set (COGNITIVE_BIAS_MARKERS lang).
          \<forall>marker \<in> set (bias_markers d). \<not> py_in marker (lower tx))
        \<longrightarrow> detect_cognitive_biases lang tx = []"
  proof
    assume none: "\<forall>(n, d) \<in> set (COGNITIVE_BIAS_MARKERS lang).
          \<forall>marker \<in> set (bias_markers d). \<not> py_in marker (lower tx)"
    have "\<And>n d. (n, d) \<in> set (COGNITIVE_BIAS_MARKERS lang) \<Longrightarrow>
        count_if (\<lambda>marker. py_in marker (lower tx)) (bias_markers d) = 0"
      using none by (auto simp: count_if_def filter_empty_conv)
    then show "detect_cognitive_biases lang tx = []"
      by (auto simp: detect_cognitive_biases_def Let_def filter_empty_conv)
  qed
qed

theorem C6_bias_detection_witness:
  "str ''confirmation bias'' \<in> set (detect_cognitive_biases EN (str ''Always, never: assertion''))
   \<and> detect_cognitive_biases EN (str ''Xyz'') = []"
proof -
  have h1: "\<exists>d. (str ''confirmation bias'', d) \<in> set (COGNITIVE_BIAS_MARKERS EN)
         \<and> 2 \<le> count_if (\<lambda>marker. py_in marker (lower (str ''Always, never: assertion'')))
                  (bias_markers d)
         \<and> list_ex (\<lambda>c. py_in c (lower (str ''Always, never: assertion''))) (bias_context d)"
    apply (rule exI [of _ "\<lparr>bias_markers = [str ''always'', str ''never'', str ''absolutely'',
             str ''definitely'', str ''undoubtedly'', str ''unquestionably'', str ''obviously''],
           bias_context = [str ''assertion'', str ''without evidence'']\<rparr>"])
    apply (simp add: COGNITIVE_BIAS_MARKERS_def count_if_def lower_def lower_cp_def str_def)
    done
  have h2: "\<forall>(n, d) \<in> set (COGNITIVE_BIAS_MARKERS EN).
          \<forall>marker \<in> set (bias_markers d). \<not> py_in marker (lower (str ''Xyz''))"
    by (simp add: COGNITIVE_BIAS_MARKERS_def lower_def lower_cp_def str_def)
  from h1 C6_bias_detection [of "str ''confirmation bias''" EN "str ''Always, never: assertion''"]
  have a: "str ''confirmation bias'' \<in> set (detect_cognitive_biases EN (str ''Always, never: assertion''))"
    by blast
  from h2 C6_bias_detection [of "[]" EN "str ''Xyz''"]
  have b: "detect_cognitive_biases EN (str ''Xyz'') = []"
    by blast
  from a b show ?thesis by blast
qed

section \<open>Creation without analysis\<close>

text \<open>
  C10. When a thought is created with \<open>request_analysis\<close> false, the metrics of the stored
  thought are the default \<open>ThoughtMetrics\<close> (every score 0, confidence MEDIUM), whatever
  confidence level the caller supplied.
\<close>

theorem C10_no_analysis_default_metrics:
  assumes "\<not> request_analysis inp"
  shows "thoughts (snd (create_thought libs p inp now stamp))
           (thought_id (fst (create_thought libs p inp now stamp)))
         = Some (fst (create_thought libs p inp now stamp))
     \<and> metrics (fst (create_thought libs p inp now stamp)) = default_metrics
     \<and> confidence_level (metrics (fst (create_thought libs p inp now stamp))) = MEDIUM"
  using assms
  by (simp add: create_thought_def Let_def split_def default_metrics_def)

theorem C10_no_analysis_default_metrics_witness:
  "\<not> request_analysis ((default_input (str ''sure''))\<lparr>confidence := Some VERY_HIGH,
        request_analysis := False\<rparr>)
   \<and> confidence_level (metrics (fst (create_thought None (new_processor EN)
        ((default_input (str ''sure''))\<lparr>confidence := Some VERY_HIGH, request_analysis := False\<rparr>)
        noon noon))) = MEDIUM"
proof -
  have h: "\<not> request_analysis ((default_input (str ''sure''))\<lparr>confidence := Some VERY_HIGH,
        request_analysis := False\<rparr>)"
    by simp
  from h C10_no_analysis_default_metrics [OF h, of None "new_processor EN" noon noon]
  show ?thesis by blast
qed

section \<open>Metacognitive analysis\<close>

text \<open>
  C9. The metacognitive analysis does not depend on its depth argument: for every engine
  state and focus area, any two depths give the same report and the same state.
\<close>

theorem C9_depth_irrelevant:
  "perform_metacognitive_analysis p focus d1 = perform_metacognitive_analysis p focus d2"
  by (simp add: perform_metacognitive_analysis_def)

theorem C9_depth_irrelevant_witness:
  "perform_metacognitive_analysis (new_processor EN) (str ''plan'') 1
   = perform_metacognitive_analysis (new_processor EN) (str ''plan'') 5"
  by (rule C9_depth_irrelevant)

section \<open>Empty thought content\<close>

text \<open>
  C8. A request whose content is blank is answered with the error payload and leaves the
  whole server state, so the store, the sessions and every children list, as it was; on an
  initialized server (or when the initialization event arrives during the wait) the error
  is the validation error for empty content.
\<close>

theorem C8_empty_content_rejected:
  assumes "strip (thought inp) = []"
  shows "snd (enhanced_thinking libs srv event_set inp now stamp) = srv
     \<and> (\<exists>msg. fst (enhanced_thinking libs srv event_set inp now stamp) = Inl msg)
     \<and> (initialized srv \<or> event_set \<longrightarrow>
          fst (enhanced_thinking libs srv event_set inp now stamp)
          = Inl (t_msg (str ''ERROR_EMPTY_THOUGHT_CONTENT'') (server_language srv)))"
  using assms
  by (simp add: enhanced_thinking_def ensure_initialized_def Let_def)

theorem C8_empty_content_rejected_witness:
  "strip (thought (default_input (str ''  ''))) = []
   \<and> enhanced_thinking None ((new_server EN)\<lparr>initialized := True\<rparr>) False
        (default_input (str ''  '')) noon noon
     = (Inl (t_msg (str ''ERROR_EMPTY_THOUGHT_CONTENT'') EN), (new_server EN)\<lparr>initialized := True\<rparr>)"
proof -
  have e: "strip (thought (default_input (str ''  ''))) = []"
    by (simp add: default_input_def strip_def str_def isspace_def)
  from C8_empty_content_rejected [OF e, of None "(new_server EN)\<lparr>initialized := True\<rparr>" False noon noon]
  have "snd (enhanced_thinking None ((new_server EN)\<lparr>initialized := True\<rparr>) False
          (default_input (str ''  '')) noon noon) = (new_server EN)\<lparr>initialized := True\<rparr>
      \<and> fst (enhanced_thinking None ((new_server EN)\<lparr>initialized := True\<rparr>) False
          (default_input (str ''  '')) noon noon)
        = Inl (t_msg (str ''ERROR_EMPTY_THOUGHT_CONTENT'') EN)"
    by (simp add: new_server_def)
  with e show ?thesis by (simp add: prod_eq_iff)
qed

section \<open>Exporting a session\<close>

text \<open>
  C2, as the claim states it, fails: on the initial state the current session has no entry
  in the session map, and the structured export answers with the session-not-found error.
\<close>

theorem C2_export_unpopulated_counterexample:
  "fst (export_thinking_session None ((new_server EN)\<lparr>initialized := True\<rparr>) True None
          (str ''json'') noon)
   = ExportError (t_msg (str ''ERROR_SESSION_NOT_FOUND'') EN)"
  by (simp add: export_thinking_session_def ensure_initialized_def new_server_def
      new_processor_def Let_def)

text \<open>
  C2, amended. On an initialized server, the structured export of a session that has an
  entry in the session map but no stored thought (the current session gets such an entry
  when a metacognitive analysis reads it) has thought count 0 and no thoughts; the export
  of a session name with no entry, which is every name that no thought was appended to and
  no analysis read, answers with the session-not-found error.
\<close>

theorem C2_export_empty_session:
  assumes "initialized srv \<or> event_set"
    and "sid = (case session_id of None \<Rightarrow> current_session_id (thinking_processor srv)
                | Some s \<Rightarrow> s)"
  shows "(thought_sessions (thinking_processor srv) sid = None \<longrightarrow>
            fst (export_thinking_session libs srv event_set session_id (str ''json'') now)
            = ExportError (t_msg (str ''ERROR_SESSION_NOT_FOUND'') (server_language srv)))
     \<and> (\<forall>ids. thought_sessions (thinking_processor srv) sid = Some ids
              \<and> stored_thoughts (thinking_processor srv) ids = [] \<longrightarrow>
            fst (export_thinking_session libs srv event_set session_id (str ''json'') now)
            = JsonExport \<lparr>export_session_id = sid, export_timestamp = now,
                          export_thought_count = 0, export_thoughts = []\<rparr>)
     \<and> snd (export_thinking_session libs srv event_set session_id (str ''json'') now) = srv"
  using assms
  by (auto simp: export_thinking_session_def ensure_initialized_def Let_def)

theorem C2_export_empty_session_witness:
  "fst (export_thinking_session None
          \<lparr>server_language = EN, initialized = True,
           thinking_processor =
             snd (perform_metacognitive_analysis (new_processor EN) (str ''plan'') 3),
           formatter_language = EN\<rparr>
          False None (str ''json'') noon)
   = JsonExport \<lparr>export_session_id = str ''default'', export_timestamp = noon,
                 export_thought_count = 0, export_thoughts = []\<rparr>
   \<and> fst (export_thinking_session None ((new_server EN)\<lparr>initialized := True\<rparr>) False
          (Some (str ''other'')) (str ''json'') noon)
     = ExportError (t_msg (str ''ERROR_SESSION_NOT_FOUND'') EN)"
proof -
  let ?p = "snd (perform_metacognitive_analysis (new_processor EN) (str ''plan'') 3)"
  let ?srv = "\<lparr>server_language = EN, initialized = True, thinking_processor = ?p,
               formatter_language = EN\<rparr>"
  have p: "thought_sessions ?p (str ''default'') = Some []" "current_session_id ?p = str ''default''"
    by (simp_all add: perform_metacognitive_analysis_def touch_current_session_def
        new_processor_def stored_thoughts_def List.map_filter_simps Let_def)
  have a: "fst (export_thinking_session None ?srv False None (str ''json'') noon)
      = JsonExport \<lparr>export_session_id = str ''default'', export_timestamp = noon,
                    export_thought_count = 0, export_thoughts = []\<rparr>"
    using C2_export_empty_session [of ?srv False "str ''default''" None None noon] p
    by (simp add: stored_thoughts_def List.map_filter_simps)
  have b: "fst (export_thinking_session None ((new_server EN)\<lparr>initialized := True\<rparr>) False
          (Some (str ''other'')) (str ''json'') noon)
     = ExportError (t_msg (str ''ERROR_SESSION_NOT_FOUND'') EN)"
    using C2_export_empty_session [of "(new_server EN)\<lparr>initialized := True\<rparr>" False
        "str ''other''" "Some (str ''other'')" None noon]
    by (simp add: new_server_def new_processor_def)
  from a b show ?thesis by simp
qed

section \<open>Thought identifiers and the store invariant\<close>

lemma digits_value_decimal: "digits_value (decimal n) = n"
proof (induction n rule: decimal.induct)
  case (1 n)
  show ?case
  proof (cases "n < 10")
    case True
    then show ?thesis by (simp add: decimal.simps [of n] digits_value_def)
  next
    case False
    then have "digits_value (decimal n) = 10 * digits_value (decimal (n div 10)) + n mod 10"
      by (simp add: decimal.simps [of n] digits_value_def)
    with 1 False show ?thesis by simp
  qed
qed

lemma decimal_inj: "decimal n = decimal m \<Longrightarrow> n = m"
  by (metis digits_value_decimal)

lemma strftime_HMS_length: "length (strftime_HMS d) = 6"
  by (simp add: strftime_HMS_def two_digits_def)

lemma thought_id_format_inj:
  assumes "thought_id_format n tm = thought_id_format m tm'"
  shows "n = m"
proof -
  from assms have "decimal n @ (str ''_'' @ strftime_HMS tm) = decimal m @ (str ''_'' @ strftime_HMS tm')"
    by (simp add: thought_id_format_def)
  moreover have "length (str ''_'' @ strftime_HMS tm) = length (str ''_'' @ strftime_HMS tm')"
    by (simp add: strftime_HMS_length)
  ultimately have "decimal n = decimal m"
    by (metis append_eq_append_conv)
  then show ?thesis by (rule decimal_inj)
qed

lemma fresh_id:
  assumes "store_inv p"
  shows "thoughts p (thought_id_format (global_thought_counter p + 1) now) = None"
proof (rule ccontr)
  assume "thoughts p (thought_id_format (global_thought_counter p + 1) now) \<noteq> None"
  then obtain th where "thoughts p (thought_id_format (global_thought_counter p + 1) now) = Some th"
    by auto
  with assms obtain n tm where
    "thought_id_format (global_thought_counter p + 1) now = thought_id_format n tm"
    "n \<le> global_thought_counter p"
    unfolding store_inv_def by blast
  then show False using thought_id_format_inj by fastforce
qed

lemma store_inv_new: "store_inv (new_processor lang)"
  by (simp add: store_inv_def new_processor_def)

lemma thought_id_format_nonempty: "thought_id_format n tm \<noteq> []"
  by (simp add: thought_id_format_def str_def)

lemma create_thought_facts:
  assumes "create_thought libs p inp now stamp = (th, p')"
  shows "thought_id th = thought_id_format (global_thought_counter p + 1) now"
    and "parent_id th = parent_thought_id inp"
    and "children_ids th = []"
    and "global_thought_counter p' = global_thought_counter p + 1"
    and "thoughts p' = (thoughts (update_thought_relationships p th))(thought_id th \<mapsto> th)"
    and "content th = thought inp"
    and "current_session_id p' = current_session_id p"
    and "thought_sessions p' = (thought_sessions p)(current_session_id p \<mapsto>
           (case thought_sessions p (current_session_id p) of None \<Rightarrow> [] | Some ids \<Rightarrow> ids)
           @ [thought_id th])"
    and "language p' = language p"
  using assms
  by (auto simp: create_thought_def generate_thought_id_def Let_def
      update_thought_relationships_def split: option.splits if_splits)

lemma update_thought_relationships_known:
  assumes "parent_id th = Some pid" and "pid \<noteq> []" and "thoughts p pid = Some parent"
    and "thought_id th \<notin> set (children_ids parent)"
  shows "thoughts (update_thought_relationships p th)
         = (thoughts p)(pid \<mapsto> parent\<lparr>children_ids := children_ids parent @ [thought_id th]\<rparr>)"
  using assms by (simp add: update_thought_relationships_def)

lemma update_thought_relationships_unknown:
  assumes "\<forall>pid. parent_id th = Some pid \<longrightarrow> thoughts p pid = None"
  shows "update_thought_relationships p th = p"
  using assms by (simp add: update_thought_relationships_def split: option.split)

lemma store_inv_key_nonempty:
  assumes "store_inv p" and "thoughts p k = Some th"
  shows "k \<noteq> []"
proof -
  from assms obtain n tm where "k = thought_id_format n tm"
    unfolding store_inv_def by blast
  then show ?thesis by (simp add: thought_id_format_nonempty)
qed

lemma create_thought_store_effect:
  assumes inv: "store_inv p" and cr: "create_thought libs p inp now stamp = (th, p')"
  shows "(\<forall>pid parent. parent_thought_id inp = Some pid \<and> thoughts p pid = Some parent \<longrightarrow>
            (\<exists>parent'. thoughts p' pid = Some parent'
               \<and> count_list (children_ids parent') (thought_id th) = 1
               \<and> parent' = parent\<lparr>children_ids := children_ids parent @ [thought_id th]\<rparr>))
       \<and> ((\<forall>pid. parent_thought_id inp = Some pid \<longrightarrow> thoughts p pid = None) \<longrightarrow>
            parent_id th = parent_thought_id inp
            \<and> (\<forall>k. k \<noteq> thought_id th \<longrightarrow> thoughts p' k = thoughts p k))
       \<and> thoughts p (thought_id th) = None
       \<and> thoughts p' (thought_id th) = Some th
       \<and> (\<forall>k. k \<noteq> thought_id th \<and> parent_thought_id inp \<noteq> Some k \<longrightarrow> thoughts p' k = thoughts p k)"
proof -
  note f = create_thought_facts [OF cr]
  have fresh: "thoughts p (thought_id th) = None"
    using fresh_id [OF inv] f(1) by simp
  have stored: "thoughts p' (thought_id th) = Some th"
    using f(5) by simp
  have known: "\<exists>parent'. thoughts p' pid = Some parent'
               \<and> count_list (children_ids parent') (thought_id th) = 1
               \<and> parent' = parent\<lparr>children_ids := children_ids parent @ [thought_id th]\<rparr>"
    if a: "parent_thought_id inp = Some pid" "thoughts p pid = Some parent" for pid parent
  proof -
    have ne: "pid \<noteq> []" using inv a(2) by (rule store_inv_key_nonempty)
    have diff: "pid \<noteq> thought_id th" using fresh a(2) by auto
    have "set (children_ids parent) \<subseteq> dom (thoughts p)"
      using inv a(2) unfolding store_inv_def by blast
    with fresh have notin: "thought_id th \<notin> set (children_ids parent)" by auto
    have "thoughts (update_thought_relationships p th)
         = (thoughts p)(pid \<mapsto> parent\<lparr>children_ids := children_ids parent @ [thought_id th]\<rparr>)"
      using f(2) a ne notin by (intro update_thought_relationships_known) simp_all
    with f(5) diff have "thoughts p' pid
        = Some (parent\<lparr>children_ids := children_ids parent @ [thought_id th]\<rparr>)"
      by simp
    moreover have "count_list (children_ids parent @ [thought_id th]) (thought_id th) = 1"
      using notin by (simp add: count_list_0_iff)
    ultimately show ?thesis by simp
  qed
  have unknown: "\<forall>k. k \<noteq> thought_id th \<longrightarrow> thoughts p' k = thoughts p k"
    if a: "\<forall>pid. parent_thought_id inp = Some pid \<longrightarrow> thoughts p pid = None"
  proof -
    have "update_thought_relationships p th = p"
      using a f(2) by (intro update_thought_relationships_unknown) simp
    with f(5) show ?thesis by simp
  qed
  have others: "thoughts p' k = thoughts p k"
    if a: "k \<noteq> thought_id th" "parent_thought_id inp \<noteq> Some k" for k
    using a f(2) f(5)
    by (auto simp: update_thought_relationships_def split: option.splits)
  from known unknown fresh stored others f(2) show ?thesis by blast
qed

lemma store_inv_create_thought:
  assumes inv: "store_inv p" and cr: "create_thought libs p inp now stamp = (th, p')"
  shows "store_inv p'"
proof -
  note f = create_thought_facts [OF cr]
  note c = create_thought_store_effect [OF inv cr]
  have fresh: "thoughts p (thought_id th) = None" using c by blast
  have dom_grows: "dom (thoughts p) \<subseteq> dom (thoughts p')"
    using f(5) by (auto simp: update_thought_relationships_def split: option.splits if_splits)
  have new_in: "thought_id th \<in> dom (thoughts p')" using f(5) by simp
  show ?thesis
    unfolding store_inv_def
  proof (intro allI impI)
    fix k t
    assume kt: "thoughts p' k = Some t"
    show "(\<exists>n tm. k = thought_id_format n tm \<and> n \<le> global_thought_counter p')
        \<and> set (children_ids t) \<subseteq> dom (thoughts p') \<and> distinct (children_ids t)"
    proof (cases "k = thought_id th")
      case True
      with kt c have "t = th" by simp
      with True f show ?thesis by auto
    next
      case False
      show ?thesis
      proof (cases "parent_thought_id inp = Some k \<and> thoughts p k \<noteq> None")
        case True
        then obtain parent where par: "parent_thought_id inp = Some k" "thoughts p k = Some parent"
          by auto
        with c kt have t: "t = parent\<lparr>children_ids := children_ids parent @ [thought_id th]\<rparr>"
          by auto
        have pinv: "(\<exists>n tm. k = thought_id_format n tm \<and> n \<le> global_thought_counter p)
          \<and> set (children_ids parent) \<subseteq> dom (thoughts p) \<and> distinct (children_ids parent)"
          using inv par(2) unfolding store_inv_def by blast
        with fresh have notin: "thought_id th \<notin> set (children_ids parent)" by auto
        from pinv dom_grows have sub: "set (children_ids parent) \<subseteq> dom (thoughts p')" by blast
        from pinv f(4) have key: "\<exists>n tm. k = thought_id_format n tm \<and> n \<le> global_thought_counter p'"
          by auto
        from key sub new_in notin pinv show ?thesis unfolding t by simp
      next
        case no: False
        have "thoughts p' k = thoughts p k"
        proof (cases "parent_thought_id inp = Some k")
          case True
          with no have "thoughts p k = None" by simp
          with True f(2) f(5) False show ?thesis
            by (auto simp: update_thought_relationships_def split: option.splits)
        next
          case nk: False
          with c False show ?thesis by blast
        qed
        with kt have "thoughts p k = Some t" by simp
        with inv have "(\<exists>n tm. k = thought_id_format n tm \<and> n \<le> global_thought_counter p)
          \<and> set (children_ids t) \<subseteq> dom (thoughts p) \<and> distinct (children_ids t)"
          unfolding store_inv_def by blast
        then have old: "(\<exists>n tm. k = thought_id_format n tm \<and> n \<le> global_thought_counter p')"
          "set (children_ids t) \<subseteq> dom (thoughts p)" "distinct (children_ids t)"
          using f(4) by auto
        from old(2) dom_grows have "set (children_ids t) \<subseteq> dom (thoughts p')" by blast
        with old show ?thesis by blast
      qed
    qed
  qed
qed

lemma store_inv_other_operations:
  shows "store_inv p \<Longrightarrow> store_inv (snd (suggest_next_thinking_strategy p ctx eff s))"
    and "store_inv p \<Longrightarrow> store_inv (snd (perform_metacognitive_analysis p focus depth))"
  by (simp_all add: store_inv_def suggest_next_thinking_strategy_def record_strategy_def
      perform_metacognitive_analysis_def touch_current_session_def Let_def split: option.split)

lemma example_A_facts:
  shows "thought_id (fst example_A) = thought_id_format 1 noon"
    and "parent_id (fst example_A) = None"
    and "children_ids (fst example_A) = []"
    and "thoughts (snd example_A) = [thought_id_format 1 noon \<mapsto> fst example_A]"
    and "thought_sessions (snd example_A) = [str ''default'' \<mapsto> [thought_id_format 1 noon]]"
    and "current_session_id (snd example_A) = str ''default''"
    and "global_thought_counter (snd example_A) = 1"
    and "store_inv (snd example_A)"
proof -
  let ?inp = "(default_input
           (str ''The data clearly shows 95% improvement, therefore we should proceed.''))
        \<lparr>thought_type_in := ANALYSIS, strategy_in := CRITICAL\<rparr>"
  have cr: "create_thought None (new_processor EN) ?inp noon noon = (fst example_A, snd example_A)"
    by (simp add: example_A_def)
  note f = create_thought_facts [OF cr]
  show id: "thought_id (fst example_A) = thought_id_format 1 noon"
    using f(1) by (simp add: new_processor_def)
  show par: "parent_id (fst example_A) = None"
    using f(2) by (simp add: default_input_def)
  show "children_ids (fst example_A) = []" by (rule f(3))
  have "update_thought_relationships (new_processor EN) (fst example_A) = new_processor EN"
    using par by (simp add: update_thought_relationships_def)
  with f(5) id show "thoughts (snd example_A) = [thought_id_format 1 noon \<mapsto> fst example_A]"
    by (simp add: new_processor_def)
  show "thought_sessions (snd example_A) = [str ''default'' \<mapsto> [thought_id_format 1 noon]]"
    using f(8) id by (simp add: new_processor_def)
  show "current_session_id (snd example_A) = str ''default''"
    using f(7) by (simp add: new_processor_def)
  show "global_thought_counter (snd example_A) = 1"
    using f(4) by (simp add: new_processor_def)
  show "store_inv (snd example_A)"
    using store_inv_new cr by (rule store_inv_create_thought)
qed

lemma example_ids_differ:
  shows "thought_id_format 1 noon \<noteq> thought_id_format 2 noon"
    and "thought_id_format (Suc 0) noon \<noteq> thought_id_format 2 noon"
  using thought_id_format_inj [of 1 noon 2 noon] by auto

lemma example_B_facts:
  shows "thought_id (fst example_B) = thought_id_format 2 noon"
    and "parent_id (fst example_B) = Some (thought_id_format 1 noon)"
    and "thoughts (snd example_B) =
           [thought_id_format 1 noon \<mapsto> (fst example_A)\<lparr>children_ids := [thought_id_format 2 noon]\<rparr>,
            thought_id_format 2 noon \<mapsto> fst example_B]"
    and "thought_sessions (snd example_B) =
           [str ''default'' \<mapsto> [thought_id_format 1 noon, thought_id_format 2 noon]]"
    and "current_session_id (snd example_B) = str ''default''"
    and "store_inv (snd example_B)"
proof -
  let ?inp = "(default_input (str ''Possibly this result is not reproducible.''))
        \<lparr>parent_thought_id := Some (thought_id (fst example_A)),
         contradicts_thoughts := [thought_id (fst example_A)]\<rparr>"
  note a = example_A_facts
  have cr: "create_thought None (snd example_A) ?inp noon noon = (fst example_B, snd example_B)"
    by (simp add: example_B_def)
  note f = create_thought_facts [OF cr]
  show id: "thought_id (fst example_B) = thought_id_format 2 noon"
    using f(1) a(7) by (simp add: numeral_2_eq_2)
  show par: "parent_id (fst example_B) = Some (thought_id_format 1 noon)"
    using f(2) a(1) by simp
  have "thoughts (update_thought_relationships (snd example_A) (fst example_B))
        = (thoughts (snd example_A))(thought_id_format 1 noon \<mapsto>
            (fst example_A)\<lparr>children_ids := children_ids (fst example_A) @ [thought_id (fst example_B)]\<rparr>)"
    using par a(4) a(3)
    by (intro update_thought_relationships_known) (simp_all add: thought_id_format_nonempty)
  with f(5) id a(3) a(4) show "thoughts (snd example_B) =
           [thought_id_format 1 noon \<mapsto> (fst example_A)\<lparr>children_ids := [thought_id_format 2 noon]\<rparr>,
            thought_id_format 2 noon \<mapsto> fst example_B]"
    by simp
  show "thought_sessions (snd example_B) =
           [str ''default'' \<mapsto> [thought_id_format 1 noon, thought_id_format 2 noon]]"
    using f(8) id a(5) a(6) by simp
  show "current_session_id (snd example_B) = str ''default''"
    using f(7) a(6) by simp
  show "store_inv (snd example_B)"
    using a(8) cr by (rule store_inv_create_thought)
qed

section \<open>Parent links on creation\<close>

text \<open>
  C7. In every state that satisfies the store invariant (the initial state does, and
  \<open>create_thought\<close> keeps it), creating a thought whose parent id names a stored thought
  puts the new id exactly once into that parent's children list; creating one whose parent
  id is absent or not stored keeps the parent link on the new thought and changes no
  thought that was in the store.
\<close>

theorem C7_parent_links:
  assumes "store_inv p" and "create_thought libs p inp now stamp = (th, p')"
  shows "(\<forall>pid parent. parent_thought_id inp = Some pid \<and> thoughts p pid = Some parent \<longrightarrow>
            (\<exists>parent'. thoughts p' pid = Some parent'
               \<and> count_list (children_ids parent') (thought_id th) = 1
               \<and> parent' = parent\<lparr>children_ids := children_ids parent @ [thought_id th]\<rparr>))
       \<and> ((\<forall>pid. parent_thought_id inp = Some pid \<longrightarrow> thoughts p pid = None) \<longrightarrow>
            parent_id th = parent_thought_id inp
            \<and> thoughts p' (thought_id th) = Some th
            \<and> (\<forall>k. k \<in> dom (thoughts p) \<longrightarrow> thoughts p' k = thoughts p k))
       \<and> thoughts p (thought_id th) = None
       \<and> store_inv p'"
proof -
  note e = create_thought_store_effect [OF assms]
  have "store_inv p'" using assms by (rule store_inv_create_thought)
  moreover have "thoughts p' k = thoughts p k"
    if "\<forall>pid. parent_thought_id inp = Some pid \<longrightarrow> thoughts p pid = None"
      and "k \<in> dom (thoughts p)" for k
  proof -
    from that(2) e have "k \<noteq> thought_id th" by auto
    with that(1) e show ?thesis by blast
  qed
  ultimately show ?thesis using e by blast
qed

theorem C7_parent_links_witness:
  "store_inv (snd example_A)
   \<and> thoughts (snd example_A) (thought_id (fst example_A)) = Some (fst example_A)
   \<and> count_list (children_ids (the (thoughts (snd example_B) (thought_id (fst example_A)))))
        (thought_id (fst example_B)) = 1
   \<and> parent_id (fst (create_thought None (new_processor EN)
        ((default_input (str ''orphan''))\<lparr>parent_thought_id := Some (str ''nobody'')\<rparr>) noon noon))
     = Some (str ''nobody'')"
proof -
  let ?inpB = "(default_input (str ''Possibly this result is not reproducible.''))
        \<lparr>parent_thought_id := Some (thought_id (fst example_A)),
         contradicts_thoughts := [thought_id (fst example_A)]\<rparr>"
  let ?inpO = "(default_input (str ''orphan''))\<lparr>parent_thought_id := Some (str ''nobody'')\<rparr>"
  have inv: "store_inv (snd example_A)" by (rule example_A_facts)
  have stored: "thoughts (snd example_A) (thought_id (fst example_A)) = Some (fst example_A)"
    by (simp add: example_A_facts)
  have crB: "create_thought None (snd example_A) ?inpB noon noon = (fst example_B, snd example_B)"
    by (simp add: example_B_def)
  have par: "parent_thought_id ?inpB = Some (thought_id (fst example_A))" by simp
  from C7_parent_links [OF inv crB] par stored
  obtain parent' where "thoughts (snd example_B) (thought_id (fst example_A)) = Some parent'"
    "count_list (children_ids parent') (thought_id (fst example_B)) = 1"
    by blast
  then have known: "count_list (children_ids (the (thoughts (snd example_B)
      (thought_id (fst example_A))))) (thought_id (fst example_B)) = 1"
    by simp
  have crO: "create_thought None (new_processor EN) ?inpO noon noon
      = (fst (create_thought None (new_processor EN) ?inpO noon noon),
         snd (create_thought None (new_processor EN) ?inpO noon noon))"
    by simp
  have none: "\<forall>pid. parent_thought_id ?inpO = Some pid \<longrightarrow> thoughts (new_processor EN) pid = None"
    by (simp add: new_processor_def)
  from C7_parent_links [OF store_inv_new crO] none
  have "parent_id (fst (create_thought None (new_processor EN) ?inpO noon noon))
      = parent_thought_id ?inpO"
    by blast
  then have unknown: "parent_id (fst (create_thought None (new_processor EN) ?inpO noon noon))
      = Some (str ''nobody'')"
    by simp
  from inv stored known unknown show ?thesis by blast
qed

section \<open>Path reconstruction\<close>

lemma walk_path_chain:
  assumes "parent_chain store k ks"
  shows "walk_path store (store k) path = Some (rev (map (\<lambda>k. the (store k)) ks) @ path)"
  using assms
proof (induction arbitrary: path rule: parent_chain.induct)
  case (chain_root k ct)
  then show ?case by (subst walk_path.simps) simp
next
  case (chain_orphan k ct)
  then show ?case
    by (subst walk_path.simps, simp, subst walk_path.simps, simp)
next
  case (chain_step k ct ks)
  have "walk_path store (store k) path
        = walk_path store (store (the (parent_id ct))) (ct # path)"
    using chain_step.hyps by (subst walk_path.simps) simp
  also have "\<dots> = Some (rev (map (\<lambda>k. the (store k)) ks) @ ct # path)"
    by (rule chain_step.IH)
  finally show ?case using chain_step.hyps by simp
qed

lemma parent_chain_deterministic:
  assumes "parent_chain store k ks" and "parent_chain store k ks'"
  shows "ks = ks'"
  using assms
proof (induction arbitrary: ks' rule: parent_chain.induct)
  case (chain_root k ct)
  from chain_root.prems chain_root.hyps show ?case
    by (cases rule: parent_chain.cases) auto
next
  case (chain_orphan k ct)
  from chain_orphan.prems chain_orphan.hyps show ?case
    by (cases rule: parent_chain.cases) (auto elim: parent_chain.cases)
next
  case (chain_step k ct ks)
  note hyps = chain_step.hyps and IH = chain_step.IH
  from chain_step.prems show ?case
  proof (cases rule: parent_chain.cases)
    case r: (chain_root ct')
    with hyps show ?thesis by simp
  next
    case o: (chain_orphan ct')
    with hyps show ?thesis by (auto elim: parent_chain.cases)
  next
    case s: (chain_step ct' ks2)
    with hyps have "parent_chain store (the (parent_id ct)) ks2" by simp
    then have "ks = ks2" by (rule IH)
    with s(1) show ?thesis by simp
  qed
qed

lemma parent_chain_member:
  assumes "parent_chain store k ks" and "k' \<in> set ks"
  shows "\<exists>ks'. parent_chain store k' ks' \<and> length ks' \<le> length ks"
  using assms
proof (induction rule: parent_chain.induct)
  case (chain_root k ct)
  then show ?case by (auto intro: parent_chain.chain_root)
next
  case (chain_orphan k ct)
  then show ?case by (auto intro: parent_chain.chain_orphan)
next
  case (chain_step k ct ks)
  show ?case
  proof (cases "k' = k")
    case True
    have "parent_chain store k (k # ks)"
      using chain_step.hyps by (rule parent_chain.chain_step)
    with True show ?thesis by auto
  next
    case False
    with chain_step.prems have "k' \<in> set ks" by simp
    then obtain ks' where "parent_chain store k' ks'" "length ks' \<le> length ks"
      using chain_step.IH by blast
    then show ?thesis by auto
  qed
qed

lemma parent_chain_distinct:
  assumes "parent_chain store k ks"
  shows "distinct ks \<and> set ks \<subseteq> dom store"
  using assms
proof (induction rule: parent_chain.induct)
  case (chain_root k ct)
  then show ?case by auto
next
  case (chain_orphan k ct)
  then show ?case by auto
next
  case (chain_step k ct ks)
  have whole: "parent_chain store k (k # ks)"
    using chain_step.hyps by (rule parent_chain.chain_step)
  have "k \<notin> set ks"
  proof
    assume "k \<in> set ks"
    with chain_step.hyps(3) obtain ks' where
      "parent_chain store k ks'" "length ks' \<le> length ks"
      using parent_chain_member by blast
    with whole have "k # ks = ks'" "length ks' \<le> length ks"
      using parent_chain_deterministic by blast+
    then show False by auto
  qed
  with chain_step show ?case by auto
qed

lemma parent_chain_length:
  assumes "parent_chain store k ks" and "finite (dom store)"
  shows "length ks \<le> card (dom store)"
proof -
  from assms(1) have d: "distinct ks" "set ks \<subseteq> dom store"
    using parent_chain_distinct by blast+
  from d(1) have "length ks = card (set ks)" by (simp add: distinct_card)
  also have "\<dots> \<le> card (dom store)" using d(2) assms(2) by (rule card_mono [rotated])
  finally show ?thesis .
qed

lemma walk_path_self_parent:
  assumes "store k = Some ct" and "parent_id ct = Some k" and "k \<noteq> []"
  shows "walk_path store (Some ct) path = None"
proof (rule ccontr)
  assume "walk_path store (Some ct) path \<noteq> None"
  then obtain r where r: "walk_path store (Some ct) path = Some r" by auto
  have "\<not> (store = store \<and> Some ct = Some ct)"
  proof (rule walk_path.raw_induct
      [where P = "\<lambda>s cur pth y. \<not> (s = store \<and> cur = Some ct)", OF _ r])
    fix walk :: "(pystr \<rightharpoonup> EnhancedThought) \<Rightarrow> EnhancedThought option \<Rightarrow> EnhancedThought list
                   \<Rightarrow> EnhancedThought list option"
      and s cur pth y
    assume ih: "\<And>s cur pth y. walk s cur pth = Some y \<Longrightarrow> \<not> (s = store \<and> cur = Some ct)"
    assume body: "(case cur of None \<Rightarrow> Some pth
       | Some c \<Rightarrow> if truthy (parent_id c) then walk s (s (the (parent_id c))) (c # pth)
                   else Some (c # pth)) = Some y"
    show "\<not> (s = store \<and> cur = Some ct)"
    proof
      assume a: "s = store \<and> cur = Some ct"
      with body assms have "walk store (Some ct) (ct # pth) = Some y"
        by (simp add: truthy_def)
      with ih show False by blast
    qed
  qed
  then show False by simp
qed

text \<open>
  C3, as the claim states it, fails: a thought whose parent id is its own id (the caller
  can name the id that the next creation will issue) makes the walk run forever.
\<close>

theorem C3_cycle_counterexample:
  "get_thinking_path
     (snd (create_thought None (new_processor EN)
             ((default_input (str ''loop''))\<lparr>parent_thought_id := Some (thought_id_format 1 noon)\<rparr>)
             noon noon))
     (thought_id_format 1 noon) = None"
proof -
  let ?inp = "(default_input (str ''loop''))\<lparr>parent_thought_id := Some (thought_id_format 1 noon)\<rparr>"
  let ?th = "fst (create_thought None (new_processor EN) ?inp noon noon)"
  let ?p = "snd (create_thought None (new_processor EN) ?inp noon noon)"
  have cr: "create_thought None (new_processor EN) ?inp noon noon = (?th, ?p)" by simp
  note f = create_thought_facts [OF cr]
  have id: "thought_id ?th = thought_id_format 1 noon"
    using f(1) by (simp add: new_processor_def)
  have par: "parent_id ?th = Some (thought_id_format 1 noon)"
    using f(2) by simp
  have stored: "thoughts ?p (thought_id_format 1 noon) = Some ?th"
    using f(5) id by simp
  have "walk_path (thoughts ?p) (Some ?th) [] = None"
    using stored par thought_id_format_nonempty by (rule walk_path_self_parent)
  with stored show ?thesis by (simp add: get_thinking_path_def)
qed

text \<open>
  C3, amended. When the parent links followed from a stored id end, at a thought with no
  parent or with a parent id that is not stored, \<open>get_thinking_path\<close> returns: the path
  holds the thoughts of the chain, root first, and is no longer than the store is large.
  On an unknown id it returns the empty list, and on a freshly created thought with no
  parent it returns the list of that thought alone.
\<close>

theorem C3_path_of_ending_chain:
  "(parent_chain (thoughts p) tid ks \<and> finite (dom (thoughts p)) \<longrightarrow>
      get_thinking_path p tid = Some (rev (map (\<lambda>k. the (thoughts p k)) ks))
      \<and> length (rev (map (\<lambda>k. the (thoughts p k)) ks)) \<le> card (dom (thoughts p)))
   \<and> (thoughts p tid = None \<longrightarrow> get_thinking_path p tid = Some [])
   \<and> (create_thought libs p inp now stamp = (th, p') \<and> \<not> truthy (parent_thought_id inp) \<longrightarrow>
        get_thinking_path p' (thought_id th) = Some [th])"
proof (intro conjI impI)
  assume a: "parent_chain (thoughts p) tid ks \<and> finite (dom (thoughts p))"
  then have "set ks \<subseteq> dom (thoughts p)" "ks \<noteq> []"
    using parent_chain_distinct by (blast, auto elim: parent_chain.cases)
  moreover have "tid \<in> set ks" using a by (auto elim: parent_chain.cases)
  ultimately obtain ct where ct: "thoughts p tid = Some ct" by auto
  have "walk_path (thoughts p) (thoughts p tid) [] = Some (rev (map (\<lambda>k. the (thoughts p k)) ks) @ [])"
    using a by (intro walk_path_chain) simp
  with ct show "get_thinking_path p tid = Some (rev (map (\<lambda>k. the (thoughts p k)) ks))"
    by (simp add: get_thinking_path_def)
  show "length (rev (map (\<lambda>k. the (thoughts p k)) ks)) \<le> card (dom (thoughts p))"
    using a parent_chain_length [of "thoughts p" tid ks] by simp
next
  assume "thoughts p tid = None"
  then show "get_thinking_path p tid = Some []" by (simp add: get_thinking_path_def)
next
  assume a: "create_thought libs p inp now stamp = (th, p') \<and> \<not> truthy (parent_thought_id inp)"
  note f = create_thought_facts [of libs p inp now stamp th p']
  from a f have stored: "thoughts p' (thought_id th) = Some th" by simp
  from a f have root: "\<not> truthy (parent_id th)" by simp
  from stored root have "parent_chain (thoughts p') (thought_id th) [thought_id th]"
    by (rule parent_chain.chain_root)
  then have "walk_path (thoughts p') (thoughts p' (thought_id th)) [] = Some (rev (map (\<lambda>k. the (thoughts p' k)) [thought_id th]) @ [])"
    by (rule walk_path_chain)
  with stored show "get_thinking_path p' (thought_id th) = Some [th]"
    by (simp add: get_thinking_path_def)
qed

theorem C3_path_of_ending_chain_witness:
  "parent_chain (thoughts (snd example_B)) (thought_id (fst example_B))
     [thought_id (fst example_B), thought_id (fst example_A)]
   \<and> finite (dom (thoughts (snd example_B)))
   \<and> get_thinking_path (snd example_B) (thought_id (fst example_B))
       = Some [(fst example_A)\<lparr>children_ids := [thought_id (fst example_B)]\<rparr>, fst example_B]
   \<and> get_thinking_path (new_processor EN) (str ''nobody'') = Some []
   \<and> get_thinking_path (snd example_A) (thought_id (fst example_A)) = Some [fst example_A]"
proof -
  let ?inpA = "(default_input
           (str ''The data clearly shows 95% improvement, therefore we should proceed.''))
        \<lparr>thought_type_in := ANALYSIS, strategy_in := CRITICAL\<rparr>"
  note a = example_A_facts and b = example_B_facts and d = example_ids_differ
  have rootA: "parent_chain (thoughts (snd example_B)) (thought_id_format 1 noon)
      [thought_id_format 1 noon]"
    by (rule parent_chain.chain_root
        [of _ _ "(fst example_A)\<lparr>children_ids := [thought_id_format 2 noon]\<rparr>"])
      (simp_all add: b(3) d a(2) truthy_def)
  have chain: "parent_chain (thoughts (snd example_B)) (thought_id (fst example_B))
     [thought_id (fst example_B), thought_id (fst example_A)]"
    unfolding b(1) a(1)
  proof (rule parent_chain.chain_step [of _ _ "fst example_B"])
    show "thoughts (snd example_B) (thought_id_format 2 noon) = Some (fst example_B)"
      by (simp add: b(3))
    show "truthy (parent_id (fst example_B))"
      by (simp add: b(2) truthy_def thought_id_format_nonempty)
    show "parent_chain (thoughts (snd example_B)) (the (parent_id (fst example_B)))
        [thought_id_format 1 noon]"
      using rootA by (simp add: b(2))
  qed
  have fin: "finite (dom (thoughts (snd example_B)))" by (simp add: b(3))
  have unknown: "thoughts (new_processor EN) (str ''nobody'') = None"
    by (simp add: new_processor_def)
  have crA: "create_thought None (new_processor EN) ?inpA noon noon = (fst example_A, snd example_A)"
    by (simp add: example_A_def)
  have rootless: "\<not> truthy (parent_thought_id ?inpA)"
    by (simp add: default_input_def truthy_def)
  have p1: "get_thinking_path (snd example_B) (thought_id (fst example_B))
       = Some [(fst example_A)\<lparr>children_ids := [thought_id (fst example_B)]\<rparr>, fst example_B]"
    using C3_path_of_ending_chain [of "snd example_B" "thought_id (fst example_B)"
        "[thought_id (fst example_B), thought_id (fst example_A)]" None ?inpA noon noon
        "fst example_A" "snd example_A"] chain fin
    by (simp add: b(1) a(1) b(3) d)
  have p2: "get_thinking_path (new_processor EN) (str ''nobody'') = Some []"
    using C3_path_of_ending_chain [of "new_processor EN" "str ''nobody''" "[]" None ?inpA noon noon
        "fst example_A" "snd example_A"] unknown
    by blast
  have p3: "get_thinking_path (snd example_A) (thought_id (fst example_A)) = Some [fst example_A]"
    using C3_path_of_ending_chain [of "new_processor EN" "str ''nobody''" "[]" None ?inpA noon noon
        "fst example_A" "snd example_A"] crA rootless
    by blast
  from chain fin p1 p2 p3 show ?thesis by blast
qed

section \<open>Session coherence\<close>

lemma stored_thoughts_length:
  "set ids \<subseteq> dom (thoughts p) \<Longrightarrow> length (stored_thoughts p ids) = length ids"
  by (induction ids) (auto simp: stored_thoughts_def List.map_filter_simps)

lemma few_texts_no_conflicts:
  "length texts < 2 \<Longrightarrow> conflicts (check_logical_consistency libs lang texts) = []"
  by (simp add: check_logical_consistency_def no_conflicts_def split: option.split)

text \<open>
  C4. For a session that is in the session map and has at least one stored thought, the
  report's coherence score is 1 minus the number of conflicts found by the consistency
  check divided by the number of thoughts of the session; with no conflict, and so for every
  session of exactly one thought, the score is 1.
\<close>

theorem C4_coherence_score:
  assumes "sid = (case session_id of None \<Rightarrow> current_session_id p | Some s \<Rightarrow> s)"
    and "thought_sessions p sid = Some ids"
    and "stored_thoughts p ids \<noteq> []"
  shows "\<exists>r. analyze_session_coherence libs p session_id = Coherence r
     \<and> consistency_analysis r
         = check_logical_consistency libs (language p) (map content (stored_thoughts p ids))
     \<and> thought_count r = length (stored_thoughts p ids)
     \<and> (set ids \<subseteq> dom (thoughts p) \<longrightarrow> thought_count r = length ids)
     \<and> coherence_score r
         = 1 - real (length (conflicts (consistency_analysis r))) / real (thought_count r)
     \<and> (conflicts (consistency_analysis r) = [] \<longrightarrow> coherence_score r = 1)
     \<and> (thought_count r = 1 \<longrightarrow> conflicts (consistency_analysis r) = [] \<and> coherence_score r = 1)"
proof -
  let ?ths = "stored_thoughts p ids"
  have pos: "max (length ?ths) 1 = length ?ths"
    using assms(3) by (cases ?ths) simp_all
  have one: "length ?ths = 1 \<Longrightarrow>
      conflicts (check_logical_consistency libs (language p) (map content ?ths)) = []"
    by (rule few_texts_no_conflicts) simp
  show ?thesis
    using assms pos one stored_thoughts_length [of ids p]
    by (simp add: analyze_session_coherence_def Let_def)
qed

theorem C4_coherence_score_witness:
  "thought_sessions (snd example_B) (current_session_id (snd example_B))
     = Some [thought_id (fst example_A), thought_id (fst example_B)]
   \<and> stored_thoughts (snd example_B) [thought_id (fst example_A), thought_id (fst example_B)] \<noteq> []
   \<and> (\<exists>r. analyze_session_coherence None (snd example_B) None = Coherence r
         \<and> thought_count r = 2 \<and> coherence_score r = 1)"
proof -
  note a = example_A_facts and b = example_B_facts and d = example_ids_differ
  let ?ids = "[thought_id (fst example_A), thought_id (fst example_B)]"
  have s: "thought_sessions (snd example_B) (current_session_id (snd example_B)) = Some ?ids"
    by (simp add: b(4) b(5) b(1) a(1))
  have st: "stored_thoughts (snd example_B) ?ids
      = [(fst example_A)\<lparr>children_ids := [thought_id_format 2 noon]\<rparr>, fst example_B]"
    by (simp add: stored_thoughts_def List.map_filter_simps b(3) b(1) a(1) d)
  then have ne: "stored_thoughts (snd example_B) ?ids \<noteq> []" by simp
  have sid: "current_session_id (snd example_B)
      = (case None of None \<Rightarrow> current_session_id (snd example_B) | Some s \<Rightarrow> s)"
    by simp
  from C4_coherence_score [OF sid s ne, of None]
  obtain r where r: "analyze_session_coherence None (snd example_B) None = Coherence r"
    "consistency_analysis r = check_logical_consistency None (language (snd example_B))
        (map content (stored_thoughts (snd example_B) ?ids))"
    "thought_count r = length (stored_thoughts (snd example_B) ?ids)"
    "conflicts (consistency_analysis r) = [] \<longrightarrow> coherence_score r = 1"
    by blast
  from r(2) have "conflicts (consistency_analysis r) = []"
    by (simp add: check_logical_consistency_def no_conflicts_def)
  with r(4) have "coherence_score r = 1" by simp
  moreover from r(3) st have "thought_count r = 2" by simp
  ultimately show ?thesis using s ne r(1) by blast
qed

section \<open>Strategy history\<close>

lemma last_n_length: "length (last_n n xs) \<le> n"
  by (simp add: last_n_def)

lemma last_n_last_n_append: "last_n n (last_n n xs @ ys) = last_n n (xs @ ys)"
  by (cases "length xs \<le> n") (simp_all add: last_n_def ac_simps)

lemma pop_is_last_n:
  assumes "length h \<le> 20"
  shows "(if length (h @ [x]) > 20 then tl (h @ [x]) else h @ [x]) = last_n 20 (h @ [x])"
proof (cases "length h = 20")
  case True
  then have "last_n 20 (h @ [x]) = tl (h @ [x])"
    unfolding last_n_def by (cases h) (simp_all add: drop_Suc)
  with True show ?thesis by simp
next
  case False
  with assms have "length (h @ [x]) - 20 = 0" by simp
  then have "last_n 20 (h @ [x]) = h @ [x]"
    unfolding last_n_def by simp
  with False assms show ?thesis by simp
qed

lemma record_strategy_history:
  assumes "length (strategy_history p) \<le> 20"
  shows "strategy_history (record_strategy p s eff) = last_n 20 (strategy_history p @ [(s, eff)])"
  using pop_is_last_n [OF assms, of "(s, eff)"] by (simp add: record_strategy_def Let_def)

lemma suggest_history:
  "strategy_history (snd (suggest_next_thinking_strategy p ctx eff s))
   = strategy_history (record_strategy p s eff)"
  by (simp add: suggest_next_thinking_strategy_def Let_def)

lemma adapt_calls_history:
  assumes "length (strategy_history p) \<le> 20"
  shows "strategy_history (adapt_calls p calls)
         = last_n 20 (strategy_history p @ map (\<lambda>(ctx, eff, s). (s, eff)) calls)"
  using assms
proof (induction calls arbitrary: p)
  case Nil
  then show ?case by (simp add: adapt_calls_def last_n_def)
next
  case (Cons c cs)
  obtain ctx eff s where c: "c = (ctx, eff, s)" by (cases c) auto
  let ?q = "snd (suggest_next_thinking_strategy p ctx eff s)"
  have hq: "strategy_history ?q = last_n 20 (strategy_history p @ [(s, eff)])"
    using Cons.prems by (simp add: suggest_history record_strategy_history)
  have lq: "length (strategy_history ?q) \<le> 20"
    unfolding hq by (rule last_n_length)
  have "strategy_history (adapt_calls p (c # cs)) = strategy_history (adapt_calls ?q cs)"
    by (simp add: adapt_calls_def c)
  also have "\<dots> = last_n 20 (strategy_history ?q @ map (\<lambda>(ctx, eff, s). (s, eff)) cs)"
    using Cons.IH [OF lq] .
  also have "\<dots> = last_n 20 (strategy_history p @ map (\<lambda>(ctx, eff, s). (s, eff)) (c # cs))"
    unfolding hq by (simp add: last_n_last_n_append c)
  finally show ?case .
qed

lemma record_strategy_last:
  "last (strategy_history (record_strategy p s eff)) = (s, eff)"
proof -
  let ?h = "strategy_history p @ [(s, eff)]"
  have "length ?h > 20 \<Longrightarrow> tl ?h \<noteq> []" by (cases "strategy_history p") auto
  then have "length ?h > 20 \<Longrightarrow> last (tl ?h) = last ?h" by (simp add: last_tl)
  then show ?thesis by (simp add: record_strategy_def Let_def)
qed

lemma suggest_state:
  "snd (suggest_next_thinking_strategy p ctx eff s) = record_strategy p s eff"
  by (simp add: suggest_next_thinking_strategy_def Let_def)

lemma record_strategy_language: "language (record_strategy p s eff) = language p"
  by (simp add: record_strategy_def Let_def)

lemma previously_effective_reason:
  "filter (\<lambda>(st, reason). reason = t_msg (str ''STRATEGY_EFFECTIVE_PREVIOUSLY_REASON'') lang)
     (previously_effective lang h) = previously_effective lang h"
  by (simp add: previously_effective_def Let_def filter_map comp_def)

lemma previously_effective_Nil:
  "previously_effective lang h = [] \<Longrightarrow>
   take 2 (map fst (filter (\<lambda>(st, e). e > 0.7) h)) = []"
  by (simp add: previously_effective_def Let_def)

lemma other_reasons_differ:
  shows "str ''HIGH_COMPLEXITY_REASON'' \<noteq> str ''STRATEGY_EFFECTIVE_PREVIOUSLY_REASON''"
    and "str ''DETAILED_ANALYSIS_NEEDED_REASON'' \<noteq> str ''STRATEGY_EFFECTIVE_PREVIOUSLY_REASON''"
    and "str ''AMBIGUITY_CRITICAL_ANALYSIS_REASON'' \<noteq> str ''STRATEGY_EFFECTIVE_PREVIOUSLY_REASON''"
    and "str ''OPPOSING_VIEWPOINTS_REASON'' \<noteq> str ''STRATEGY_EFFECTIVE_PREVIOUSLY_REASON''"
    and "str ''EMOTIONAL_CONTEXT_EMPATHETIC_REASON'' \<noteq> str ''STRATEGY_EFFECTIVE_PREVIOUSLY_REASON''"
    and "str ''REFLECTION_NEEDED_REASON'' \<noteq> str ''STRATEGY_EFFECTIVE_PREVIOUSLY_REASON''"
    and "str ''EXPLORE_ALTERNATIVES_REASON'' \<noteq> str ''STRATEGY_EFFECTIVE_PREVIOUSLY_REASON''"
    and "str ''ANALYZE_APPROACH_REASON'' \<noteq> str ''STRATEGY_EFFECTIVE_PREVIOUSLY_REASON''"
    and "str ''USE_SYSTEMATIC_ANALYSIS_REASON'' \<noteq> str ''STRATEGY_EFFECTIVE_PREVIOUSLY_REASON''"
    and "str ''APPLY_STRICT_LOGIC_REASON'' \<noteq> str ''STRATEGY_EFFECTIVE_PREVIOUSLY_REASON''"
    and "str ''TRY_CREATIVE_APPROACH_REASON'' \<noteq> str ''STRATEGY_EFFECTIVE_PREVIOUSLY_REASON''"
    and "str ''GENERATE_MORE_ALTERNATIVES_REASON'' \<noteq> str ''STRATEGY_EFFECTIVE_PREVIOUSLY_REASON''"
  by (simp_all add: str_def)

text \<open>
  What the answer holds under the reason of the fourth branch: exactly the first two
  strategies, in history order, of the last five history entries whose effectiveness is
  above 0.7. No other branch uses that reason.
\<close>

lemma answer_previously_effective:
  "filter (\<lambda>(st, reason). reason = t_msg (str ''STRATEGY_EFFECTIVE_PREVIOUSLY_REASON'') (language p))
     (suggested_strategies (fst (suggest_next_thinking_strategy p ctx eff s)))
   = map (\<lambda>st. (st, t_msg (str ''STRATEGY_EFFECTIVE_PREVIOUSLY_REASON'') (language p)))
       (take 2 (map fst (filter (\<lambda>(st, e). e > 0.7)
          (last_n 5 (strategy_history (snd (suggest_next_thinking_strategy p ctx eff s)))))))"
proof -
  let ?q = "record_strategy p s eff"
  let ?lang = "language p"
  let ?prev = "previously_effective ?lang (last_n 5 (strategy_history ?q))"
  let ?P = "\<lambda>(st, reason). reason = t_msg (str ''STRATEGY_EFFECTIVE_PREVIOUSLY_REASON'') ?lang"
  have prev: "filter ?P ?prev = ?prev" by (rule previously_effective_reason)
  have prev_eq: "?prev = map (\<lambda>st. (st, t_msg (str ''STRATEGY_EFFECTIVE_PREVIOUSLY_REASON'') ?lang))
       (take 2 (map fst (filter (\<lambda>(st, e). e > 0.7) (last_n 5 (strategy_history ?q)))))"
    by (simp add: previously_effective_def Let_def)
  have "filter ?P (suggested_strategies (fst (suggest_next_thinking_strategy p ctx eff s))) = ?prev"
    using prev
    by (simp add: suggest_next_thinking_strategy_def Let_def record_strategy_language
        analyze_strategy_history_def t_msg_def other_reasons_differ)
  with prev_eq show ?thesis by (simp add: suggest_state)
qed

text \<open>
  C5. After any sequence of \<open>adapt_strategy\<close> requests on a fresh processor the history
  is the last 20 of the recorded (strategy, effectiveness) pairs, in order; a request on a
  history of at most 20 entries appends its own pair and keeps the last 20, and its pair is
  always the newest entry. In the answer of a request, the recommendations that carry the
  reason of the fourth branch are exactly the first two strategies of the last five
  history entries whose effectiveness is above 0.7: there are at most two of them, and
  every one occurs among the last five history entries with an effectiveness above 0.7.
\<close>

theorem C5_strategy_history:
  "strategy_history (adapt_calls (new_processor lang) calls)
     = last_n 20 (map (\<lambda>(ctx, eff, s). (s, eff)) calls)
   \<and> length (strategy_history (adapt_calls (new_processor lang) calls)) \<le> 20
   \<and> (length (strategy_history p) \<le> 20 \<longrightarrow>
        strategy_history (snd (suggest_next_thinking_strategy p ctx eff s))
          = last_n 20 (strategy_history p @ [(s, eff)]))
   \<and> last (strategy_history (snd (suggest_next_thinking_strategy p ctx eff s))) = (s, eff)
   \<and> filter (\<lambda>(st, reason). reason = t_msg (str ''STRATEGY_EFFECTIVE_PREVIOUSLY_REASON'') (language p))
        (suggested_strategies (fst (suggest_next_thinking_strategy p ctx eff s)))
      = map (\<lambda>st. (st, t_msg (str ''STRATEGY_EFFECTIVE_PREVIOUSLY_REASON'') (language p)))
          (take 2 (map fst (filter (\<lambda>(st, e). e > 0.7)
             (last_n 5 (strategy_history (snd (suggest_next_thinking_strategy p ctx eff s)))))))
   \<and> length (filter (\<lambda>(st, reason).
                 reason = t_msg (str ''STRATEGY_EFFECTIVE_PREVIOUSLY_REASON'') (language p))
               (suggested_strategies (fst (suggest_next_thinking_strategy p ctx eff s)))) \<le> 2
   \<and> (\<forall>(st, reason) \<in> set (suggested_strategies (fst (suggest_next_thinking_strategy p ctx eff s))).
        reason = t_msg (str ''STRATEGY_EFFECTIVE_PREVIOUSLY_REASON'') (language p) \<longrightarrow>
        (\<exists>e. (st, e) \<in> set (last_n 5 (strategy_history
                                         (snd (suggest_next_thinking_strategy p ctx eff s))))
              \<and> e > 0.7))"
proof -
  let ?q = "snd (suggest_next_thinking_strategy p ctx eff s)"
  let ?r = "fst (suggest_next_thinking_strategy p ctx eff s)"
  let ?P = "\<lambda>(st, reason). reason = t_msg (str ''STRATEGY_EFFECTIVE_PREVIOUSLY_REASON'') (language p)"
  let ?eff = "map fst (filter (\<lambda>(st, e). e > 0.7) (last_n 5 (strategy_history ?q)))"
  have h0: "length (strategy_history (new_processor lang)) \<le> 20"
    by (simp add: new_processor_def)
  have a: "strategy_history (adapt_calls (new_processor lang) calls)
     = last_n 20 (map (\<lambda>(ctx, eff, s). (s, eff)) calls)"
    using adapt_calls_history [OF h0, of calls] by (simp add: new_processor_def)
  have b: "length (strategy_history (adapt_calls (new_processor lang) calls)) \<le> 20"
    unfolding a by (rule last_n_length)
  have c: "length (strategy_history p) \<le> 20 \<longrightarrow>
        strategy_history ?q = last_n 20 (strategy_history p @ [(s, eff)])"
    by (simp add: suggest_history record_strategy_history)
  have d: "last (strategy_history ?q) = (s, eff)"
    by (simp add: suggest_history record_strategy_last)
  have e: "filter ?P (suggested_strategies ?r)
      = map (\<lambda>st. (st, t_msg (str ''STRATEGY_EFFECTIVE_PREVIOUSLY_REASON'') (language p)))
          (take 2 ?eff)"
    by (rule answer_previously_effective)
  have f: "length (filter ?P (suggested_strategies ?r)) \<le> 2"
    unfolding e by simp
  have g: "\<exists>e. (st, e) \<in> set (last_n 5 (strategy_history ?q)) \<and> e > 0.7"
    if m: "(st, reason) \<in> set (suggested_strategies ?r)"
      and r: "reason = t_msg (str ''STRATEGY_EFFECTIVE_PREVIOUSLY_REASON'') (language p)"
    for st reason
  proof -
    from m r have "(st, reason) \<in> set (filter ?P (suggested_strategies ?r))" by simp
    then have "(st, reason) \<in> (\<lambda>st. (st, t_msg (str ''STRATEGY_EFFECTIVE_PREVIOUSLY_REASON'')
        (language p))) ` set (take 2 ?eff)"
      unfolding e set_map .
    then have "st \<in> set (take 2 ?eff)" by blast
    then have "st \<in> set ?eff" by (rule in_set_takeD)
    then show ?thesis by auto
  qed
  from a b c d e f g show ?thesis by blast
qed

theorem C5_strategy_history_witness:
  "length (strategy_history (new_processor EN)) \<le> 20
   \<and> strategy_history (snd (suggest_next_thinking_strategy (new_processor EN) (str ''x'')
        (9 / 10) CRITICAL)) = [(CRITICAL, 9 / 10)]
   \<and> filter (\<lambda>(st, reason). reason = t_msg (str ''STRATEGY_EFFECTIVE_PREVIOUSLY_REASON'') EN)
        (suggested_strategies (fst (suggest_next_thinking_strategy (new_processor EN)
           (str ''x'') (9 / 10) CRITICAL)))
      = [(CRITICAL, t_msg (str ''STRATEGY_EFFECTIVE_PREVIOUSLY_REASON'') EN)]
   \<and> (CRITICAL, t_msg (str ''STRATEGY_EFFECTIVE_PREVIOUSLY_REASON'') EN)
        \<in> set (suggested_strategies (fst (suggest_next_thinking_strategy (new_processor EN)
                 (str ''x'') (9 / 10) CRITICAL)))
   \<and> strategy_history (adapt_calls (new_processor EN)
        [(str ''x'', 9 / 10, CRITICAL), (str ''y'', 1 / 2, LINEAR)])
      = [(CRITICAL, 9 / 10), (LINEAR, 1 / 2)]"
proof -
  let ?q = "snd (suggest_next_thinking_strategy (new_processor EN) (str ''x'') (9 / 10) CRITICAL)"
  let ?r = "fst (suggest_next_thinking_strategy (new_processor EN) (str ''x'') (9 / 10) CRITICAL)"
  let ?P = "\<lambda>(st, reason). reason = t_msg (str ''STRATEGY_EFFECTIVE_PREVIOUSLY_REASON'') EN"
  note c5 = C5_strategy_history [of EN "[(str ''x'', 9 / 10, CRITICAL), (str ''y'', 1 / 2, LINEAR)]"
      "new_processor EN" "str ''x''" "9 / 10" CRITICAL]
  have h0: "length (strategy_history (new_processor EN)) \<le> 20"
    by (simp add: new_processor_def)
  from c5 h0 have h1: "strategy_history ?q = [(CRITICAL, 9 / 10)]"
    by (simp add: last_n_def new_processor_def)
  have lang: "language (new_processor EN) = EN" by (simp add: new_processor_def)
  from c5 have "filter (\<lambda>(st, reason).
        reason = t_msg (str ''STRATEGY_EFFECTIVE_PREVIOUSLY_REASON'') (language (new_processor EN)))
        (suggested_strategies ?r)
      = map (\<lambda>st. (st, t_msg (str ''STRATEGY_EFFECTIVE_PREVIOUSLY_REASON'')
                         (language (new_processor EN))))
          (take 2 (map fst (filter (\<lambda>(st, e). e > 0.7) (last_n 5 (strategy_history ?q)))))"
    by blast
  then have h2: "filter ?P (suggested_strategies ?r)
      = [(CRITICAL, t_msg (str ''STRATEGY_EFFECTIVE_PREVIOUSLY_REASON'') EN)]"
    unfolding lang h1 by (simp add: last_n_def)
  have "(CRITICAL, t_msg (str ''STRATEGY_EFFECTIVE_PREVIOUSLY_REASON'') EN)
      \<in> set (filter ?P (suggested_strategies ?r))"
    unfolding h2 by simp
  then have h3: "(CRITICAL, t_msg (str ''STRATEGY_EFFECTIVE_PREVIOUSLY_REASON'') EN)
      \<in> set (suggested_strategies ?r)"
    by simp
  from c5 have h4: "strategy_history (adapt_calls (new_processor EN)
        [(str ''x'', 9 / 10, CRITICAL), (str ''y'', 1 / 2, LINEAR)])
      = [(CRITICAL, 9 / 10), (LINEAR, 1 / 2)]"
    by (simp add: last_n_def)
  from h0 h1 h2 h3 h4 show ?thesis by blast
qed

end
